theory Spec2Isabelle
  imports Complex_Main "HOL-Library.Log_Nat"
begin

section \<open>Python floats\<close>

text \<open>
  A Python float is an IEEE 754 binary64 number. Its finite values are the rationals
  \<open>m * 2 ^ e\<close> with \<open>m < 2 ^ 53\<close> and \<open>-1074 \<le> e \<le> 971\<close>; the two zeros are one
  value here (they compare equal, and SQLite stores them as one).
\<close>

datatype double = Fin rat | PInf | NInf | NaN

datatype erro = IntegrityError | ZeroDivisionError

text \<open>
  \<open>potencia b k\<close> is \<open>b ^ k\<close> for an integer \<open>k\<close>; \<open>expoente b a\<close> is, for \<open>a > 0\<close>,
  the \<open>e\<close> with \<open>b ^ e \<le> a < b ^ (e + 1)\<close>; \<open>round_half_even\<close> is the nearest
  integer, a tie going to the even one.
\<close>

definition potencia :: "nat \<Rightarrow> int \<Rightarrow> rat" where
  "potencia b k = (if k \<ge> 0 then of_nat b ^ nat k else 1 / of_nat b ^ nat (- k))"

definition expoente :: "nat \<Rightarrow> rat \<Rightarrow> int" where
  "expoente b a =
     (if a \<ge> 1 then int (floorlog b (nat \<lfloor>a\<rfloor>)) - 1
      else - int (floorlog b (nat (\<lceil>1 / a\<rceil> - 1))))"

definition round_half_even :: "rat \<Rightarrow> int" where
  "round_half_even y =
     (let f = \<lfloor>y\<rfloor>; d = y - of_int f in
      if d < 1 / 2 then f else if d > 1 / 2 then f + 1
      else if even f then f else f + 1)"

text \<open>
  \<open>fl\<close> rounds an exact result to the nearest double, a tie to the even mantissa:
  the spacing of the doubles around \<open>q\<close> is \<open>2 ^ (e - 52)\<close>, with \<open>e\<close> the binary
  exponent of \<open>q\<close> and at least \<open>-1022\<close> (below that the doubles are evenly spaced);
  a result that reaches \<open>2 ^ 1024\<close>, which is a mantissa of \<open>2 ^ 53\<close> at the exponent
  1023 or any mantissa above that exponent, is an infinity.
\<close>

definition fl :: "rat \<Rightarrow> double" where
  "fl q =
     (if q = 0 then Fin 0
      else
        let a = \<bar>q\<bar>;
            e = max (expoente 2 a) (- 1022);
            ulp = potencia 2 (e - 52);
            m = round_half_even (a / ulp);
            r = of_int m * ulp
        in
        if e > 1023 \<or> (e = 1023 \<and> m \<ge> 2 ^ 53) then (if q > 0 then PInf else NInf)
        else Fin (if q > 0 then r else - r))"

text \<open>
  The operators the service applies to floats: \<open>-\<close>, \<open>*\<close>, \<open>/\<close> (which raises
  \<open>ZeroDivisionError\<close> on a zero divisor, whatever the dividend), \<open><\<close> and \<open><=\<close>
  (\<open>a > b\<close> is \<open>d_less b a\<close>). Every comparison with a NaN is false.
\<close>

definition d_sub :: "double \<Rightarrow> double \<Rightarrow> double" where
  "d_sub x y =
     (case (x, y) of
        (Fin a, Fin b) \<Rightarrow> fl (a - b)
      | (NaN, _) \<Rightarrow> NaN
      | (_, NaN) \<Rightarrow> NaN
      | (PInf, PInf) \<Rightarrow> NaN
      | (NInf, NInf) \<Rightarrow> NaN
      | (PInf, _) \<Rightarrow> PInf
      | (NInf, _) \<Rightarrow> NInf
      | (Fin a, PInf) \<Rightarrow> NInf
      | (Fin a, NInf) \<Rightarrow> PInf)"

definition d_mul :: "double \<Rightarrow> double \<Rightarrow> double" where
  "d_mul x y =
     (case (x, y) of
        (Fin a, Fin b) \<Rightarrow> fl (a * b)
      | (NaN, _) \<Rightarrow> NaN
      | (_, NaN) \<Rightarrow> NaN
      | (Fin a, PInf) \<Rightarrow> (if a = 0 then NaN else if a > 0 then PInf else NInf)
      | (Fin a, NInf) \<Rightarrow> (if a = 0 then NaN else if a > 0 then NInf else PInf)
      | (PInf, Fin b) \<Rightarrow> (if b = 0 then NaN else if b > 0 then PInf else NInf)
      | (NInf, Fin b) \<Rightarrow> (if b = 0 then NaN else if b > 0 then NInf else PInf)
      | (PInf, PInf) \<Rightarrow> PInf
      | (NInf, NInf) \<Rightarrow> PInf
      | (PInf, NInf) \<Rightarrow> NInf
      | (NInf, PInf) \<Rightarrow> NInf)"

definition py_div :: "double \<Rightarrow> double \<Rightarrow> erro + double" where
  "py_div x y =
     (if y = Fin 0 then Inl ZeroDivisionError
      else
        Inr (case (x, y) of
               (Fin a, Fin b) \<Rightarrow> fl (a / b)
             | (NaN, _) \<Rightarrow> NaN
             | (_, NaN) \<Rightarrow> NaN
             | (Fin a, _) \<Rightarrow> Fin 0
             | (PInf, Fin b) \<Rightarrow> (if b > 0 then PInf else NInf)
             | (NInf, Fin b) \<Rightarrow> (if b > 0 then NInf else PInf)
             | (_, _) \<Rightarrow> NaN))"

definition d_less :: "double \<Rightarrow> double \<Rightarrow> bool" where
  "d_less x y =
     (case (x, y) of
        (Fin a, Fin b) \<Rightarrow> a < b
      | (NaN, _) \<Rightarrow> False
      | (_, NaN) \<Rightarrow> False
      | (_, NInf) \<Rightarrow> False
      | (PInf, _) \<Rightarrow> False
      | (_, _) \<Rightarrow> True)"

definition d_le :: "double \<Rightarrow> double \<Rightarrow> bool" where
  "d_le x y =
     (case (x, y) of
        (Fin a, Fin b) \<Rightarrow> a \<le> b
      | (NaN, _) \<Rightarrow> False
      | (_, NaN) \<Rightarrow> False
      | (NInf, _) \<Rightarrow> True
      | (_, PInf) \<Rightarrow> True
      | (_, _) \<Rightarrow> False)"

text \<open>
  Python's \<open>round(x, 2)\<close>: the exact value of the double is rounded to the nearest
  hundredth, a tie to the even one, and the result is read back as a double. An
  infinity or a NaN is returned as it is.
\<close>

definition py_round2 :: "double \<Rightarrow> double" where
  "py_round2 x =
     (case x of
        Fin q \<Rightarrow> fl (of_int (round_half_even (q * 100)) / 100)
      | _ \<Rightarrow> x)"

text \<open>
  \<open>repr\<close> of a positive double, as the number it writes: the decimal with the fewest
  significant digits that reads back as the same double, the one nearest to it when
  there are two. \<open>repr_digitos n a\<close> looks among the decimals of \<open>n\<close> significant
  digits; 17 digits always suffice.
\<close>

definition repr_digitos :: "nat \<Rightarrow> rat \<Rightarrow> rat option" where
  "repr_digitos n a =
     (let s = potencia 10 (expoente 10 a - int n + 1);
          m = \<lfloor>a / s\<rfloor>;
          lo = of_int m * s;
          hi = lo + s;
          ok_lo = (fl lo = Fin a);
          ok_hi = (fl hi = Fin a)
      in
      if ok_lo \<and> ok_hi then
        Some (if a - lo < hi - a then lo else if hi - a < a - lo then hi
              else if even m then lo else hi)
      else if ok_lo then Some lo
      else if ok_hi then Some hi
      else None)"

fun repr_desde :: "nat \<Rightarrow> nat \<Rightarrow> rat \<Rightarrow> rat" where
  "repr_desde 0 n a = a"
| "repr_desde (Suc k) n a =
     (case repr_digitos n a of Some r \<Rightarrow> r | None \<Rightarrow> repr_desde k (Suc n) a)"

definition py_repr :: "rat \<Rightarrow> rat" where
  "py_repr a = repr_desde 17 1 a"

section \<open>Edge node: radar\_service.py\<close>

text \<open>
  The module globals read from the environment file. Only the settings that the
  modelled functions read are kept.
\<close>

record config =
  RADAR_ID :: string
  RADAR_NAME :: string
  SENSOR_DIST_M :: double
  SPEED_LIMIT :: double
  PG_AVAILABLE :: bool
  PG_HOST :: string

subsection \<open>Local SQLite table \<open>deteccoes\<close>\<close>

text \<open>
  One row of \<open>deteccoes\<close>. The two INTEGER flag columns only ever hold 0 or 1
  (the DEFAULT 0, \<open>1 if ... else 0\<close> and \<open>SET sincronizado = 1\<close>), so they are
  booleans here. The table is a list in insertion order, which is the order of the
  AUTOINCREMENT key because no row is ever deleted.
\<close>

record deteccao =
  det_id :: nat
  det_uuid :: string
  det_radar_id :: string
  det_timestamp :: string
  det_velocidade :: double
  det_direcao :: string
  det_acima_limite :: bool
  det_sincronizado :: bool

text \<open>
  \<open>salvar_deteccao\<close>: the fresh \<open>uuid.uuid4()\<close> and \<open>datetime.now()\<close> are inputs
  (\<open>uid\<close>, \<open>ts\<close>). The INSERT raises \<open>IntegrityError\<close> when the UNIQUE constraint on
  \<open>uuid\<close> is violated, and when the speed is a NaN, which SQLite binds as NULL
  against the NOT NULL column. Otherwise the row is appended with the column default
  \<open>sincronizado = 0\<close> and the uuid is returned.
\<close>

definition salvar_deteccao ::
  "config \<Rightarrow> string \<Rightarrow> string \<Rightarrow> double \<Rightarrow> string \<Rightarrow> deteccao list
     \<Rightarrow> erro + (string \<times> deteccao list)" where
  "salvar_deteccao cfg uid ts velocidade direcao db =
     (let acima = d_less (SPEED_LIMIT cfg) velocidade in
      if velocidade = NaN \<or> uid \<in> set (map det_uuid db) then Inl IntegrityError
      else Inr (uid, db @ [\<lparr>det_id = Suc (length db), det_uuid = uid,
                            det_radar_id = RADAR_ID cfg, det_timestamp = ts,
                            det_velocidade = velocidade, det_direcao = direcao,
                            det_acima_limite = acima, det_sincronizado = False\<rparr>]))"

text \<open>\<open>SELECT * FROM deteccoes WHERE sincronizado = 0 ORDER BY id LIMIT 100\<close>\<close>

definition get_deteccoes_nao_sincronizadas :: "deteccao list \<Rightarrow> deteccao list" where
  "get_deteccoes_nao_sincronizadas db = take 100 (filter (\<lambda>r. \<not> det_sincronizado r) db)"

text \<open>
  \<open>marcar_sincronizado\<close>: \<open>executemany\<close> runs
  \<open>UPDATE deteccoes SET sincronizado = 1 WHERE uuid = ?\<close> once per uuid of the list.
\<close>

definition update_sincronizado :: "string \<Rightarrow> deteccao list \<Rightarrow> deteccao list" where
  "update_sincronizado u db =
     map (\<lambda>r. if det_uuid r = u then r\<lparr>det_sincronizado := True\<rparr> else r) db"

definition marcar_sincronizado :: "string list \<Rightarrow> deteccao list \<Rightarrow> deteccao list" where
  "marcar_sincronizado uuids db = fold update_sincronizado uuids db"

subsection \<open>Synchronisation with the central PostgreSQL\<close>

text \<open>
  One row of the central table \<open>radar_deteccoes\<close>; a NUMERIC value is a decimal
  number or NaN. The central database is the table, absent until
  \<open>CREATE TABLE IF NOT EXISTS\<close> has run, and the sequence behind the SERIAL key.
\<close>

datatype numeric = Numeric rat | NumericNaN

record pg_linha =
  pg_id :: nat
  pg_uuid :: string
  pg_radar_id :: string
  pg_radar_nome :: string
  pg_timestamp :: string
  pg_velocidade :: numeric
  pg_direcao :: string
  pg_acima_limite :: bool
  pg_criado_em :: string

record central =
  radar_deteccoes :: "pg_linha list option"
  radar_deteccoes_id_seq :: nat

definition linhas :: "central \<Rightarrow> pg_linha list" where
  "linhas c = (case radar_deteccoes c of None \<Rightarrow> [] | Some rs \<Rightarrow> rs)"

text \<open>
  What one sync cycle meets outside the process: whether \<open>psycopg2.connect\<close>
  succeeds, the server's \<open>NOW()\<close>, and whether \<open>pg.commit()\<close> goes through.
\<close>

record ambiente =
  conecta :: bool
  agora_pg :: string
  commit_ok :: bool

text \<open>
  \<open>get_pg_connection\<close>: \<open>None\<close> when the driver is missing, no host is configured
  or the connection attempt raises; otherwise the connection, which is the access to
  the central database.
\<close>

definition get_pg_connection :: "config \<Rightarrow> ambiente \<Rightarrow> central \<Rightarrow> central option" where
  "get_pg_connection cfg amb c =
     (if \<not> PG_AVAILABLE cfg \<or> PG_HOST cfg = [] then None
      else if conecta amb then Some c else None)"

definition garantir_tabela_pg :: "central \<Rightarrow> central" where
  "garantir_tabela_pg c =
     (case radar_deteccoes c of
        None \<Rightarrow> c\<lparr>radar_deteccoes := Some []\<rparr>
      | Some rs \<Rightarrow> c)"

text \<open>
  The column \<open>velocidade NUMERIC(6,2)\<close>. The driver sends a float as its \<open>repr\<close>;
  the server rounds that decimal to two places, a tie away from zero, and the
  statement fails (numeric field overflow) when the rounded value does not fit four
  integer digits, or when the float is an infinity. A NaN is stored as NaN.
\<close>

definition numeric_6_2 :: "double \<Rightarrow> numeric option" where
  "numeric_6_2 x =
     (case x of
        Fin q \<Rightarrow>
          (let d = (if q = 0 then 0 else sgn q * py_repr \<bar>q\<bar>);
               r = sgn d * of_int \<lfloor>\<bar>d\<bar> * 100 + 1 / 2\<rfloor> / 100
           in if \<bar>r\<bar> \<ge> 10000 then None else Some (Numeric r))
      | NaN \<Rightarrow> Some NumericNaN
      | _ \<Rightarrow> None)"

text \<open>
  The state of the loop \<open>for det in pendentes\<close>: the table as the open transaction
  sees it, the sequence, whether a statement has failed in the transaction, and the
  list \<open>enviados\<close>.
\<close>

record transacao =
  tx_linhas :: "pg_linha list"
  tx_seq :: nat
  tx_abortada :: bool
  enviados :: "string list"

text \<open>
  One iteration of the loop: \<open>INSERT ... ON CONFLICT (uuid) DO NOTHING\<close> inside
  \<open>try\<close>, then \<open>enviados.append\<close>. A statement that raises is caught and logged by
  the \<open>except\<close> branch and leaves the transaction failed, so every later statement
  of the cycle raises as well. A statement that runs draws the next key from the
  sequence and adds its row only if no row has the uuid.
\<close>

definition inserir :: "config \<Rightarrow> string \<Rightarrow> deteccao \<Rightarrow> transacao \<Rightarrow> transacao" where
  "inserir cfg now det tx =
     (if tx_abortada tx then tx
      else
        (case numeric_6_2 (det_velocidade det) of
           None \<Rightarrow> tx\<lparr>tx_abortada := True\<rparr>
         | Some v \<Rightarrow>
             let n = Suc (tx_seq tx) in
             tx\<lparr>tx_seq := n,
                tx_linhas :=
                  (if det_uuid det \<in> set (map pg_uuid (tx_linhas tx)) then tx_linhas tx
                   else tx_linhas tx @
                     [\<lparr>pg_id = n, pg_uuid = det_uuid det, pg_radar_id = det_radar_id det,
                       pg_radar_nome = RADAR_NAME cfg, pg_timestamp = det_timestamp det,
                       pg_velocidade = v, pg_direcao = det_direcao det,
                       pg_acima_limite = det_acima_limite det, pg_criado_em = now\<rparr>]),
                enviados := enviados tx @ [det_uuid det]\<rparr>))"

text \<open>
  \<open>sincronizar_com_central\<close> on the pair of the local table and the central
  database. A commit of a failed transaction rolls it back (the sequence keeps its
  value); a commit that raises takes the outer \<open>except\<close>, which marks nothing.
\<close>

definition sincronizar_com_central ::
  "config \<Rightarrow> ambiente \<Rightarrow> deteccao list \<times> central \<Rightarrow> deteccao list \<times> central" where
  "sincronizar_com_central cfg amb s =
     (let db = fst s; c = snd s;
          pendentes = get_deteccoes_nao_sincronizadas db
      in
      if pendentes = [] then (db, c)
      else
        (case get_pg_connection cfg amb c of
           None \<Rightarrow> (db, c)
         | Some pg \<Rightarrow>
             let pg1 = garantir_tabela_pg pg;
                 tx = fold (inserir cfg (agora_pg amb)) pendentes
                        \<lparr>tx_linhas = linhas pg1, tx_seq = radar_deteccoes_id_seq pg1,
                         tx_abortada = False, enviados = []\<rparr>
             in
             if \<not> commit_ok amb then (db, pg1\<lparr>radar_deteccoes_id_seq := tx_seq tx\<rparr>)
             else
               (if enviados tx \<noteq> [] then marcar_sincronizado (enviados tx) db else db,
                pg1\<lparr>radar_deteccoes :=
                       Some (if tx_abortada tx then linhas pg1 else tx_linhas tx),
                     radar_deteccoes_id_seq := tx_seq tx\<rparr>)))"

text \<open>
  Any number of sync cycles: each entry gives what the cycle meets outside and the
  local table as it stands when the cycle starts.
\<close>

definition ciclos_sync :: "config \<Rightarrow> (ambiente \<times> deteccao list) list \<Rightarrow> central \<Rightarrow> central" where
  "ciclos_sync cfg cs c =
     fold (\<lambda>(amb, db) c. snd (sincronizar_com_central cfg amb (db, c))) cs c"

text \<open>The number of rows of the central table with a given uuid.\<close>

definition contagem :: "string \<Rightarrow> central \<Rightarrow> nat" where
  "contagem u c = length (filter (\<lambda>r. pg_uuid r = u) (linhas c))"

subsection \<open>Real-time event buffer\<close>

record evento =
  ev_uuid :: string
  ev_radar_id :: string
  ev_radar_nome :: string
  ev_velocidade :: double
  ev_limite :: double
  ev_acima_limite :: bool
  ev_timestamp :: string
  ev_direcao :: string

text \<open>
  \<open>adicionar_evento_realtime\<close>: append, then drop the head when the list has more
  than 50 entries. Both steps run under \<open>eventos_lock\<close>, so the function is one
  atomic step of the model.
\<close>

definition adicionar_evento_realtime :: "'a list \<Rightarrow> 'a \<Rightarrow> 'a list" where
  "adicionar_evento_realtime eventos dados =
     (let es = eventos @ [dados] in if length es > 50 then tl es else es)"

text \<open>\<open>api_eventos\<close> of the edge node: \<open>list(reversed(eventos_realtime[-20:]))\<close>.\<close>

definition api_eventos :: "'a list \<Rightarrow> 'a list" where
  "api_eventos eventos = rev (drop (length eventos - 20) eventos)"

subsection \<open>Sensor callbacks\<close>

text \<open>
  The state of the process that the callbacks touch: the armed slot
  \<open>sensor_a_tempo\<close>, the local table and the event buffer.
\<close>

record radar =
  sensor_a_tempo :: "double option"
  deteccoes :: "deteccao list"
  eventos_realtime :: "evento list"

text \<open>
  What a callback reads from outside: \<open>time.time()\<close>, the uuid drawn by
  \<open>salvar_deteccao\<close>, and the two \<open>datetime.now().isoformat()\<close> strings (the row's
  and the event's).
\<close>

record leitura =
  time_time :: double
  novo_uuid :: string
  ts_deteccao :: string
  ts_evento :: string

definition callback_sensor_a :: "double \<Rightarrow> radar \<Rightarrow> radar" where
  "callback_sensor_a t s = s\<lparr>sensor_a_tempo := Some t\<rparr>"

text \<open>
  \<open>callback_sensor_b\<close>, the whole body under \<open>sensor_lock\<close>. The result pairs the
  exception that leaves the callback (\<open>None\<close> when it returns normally) with the
  state it leaves behind. The literal \<open>3.6\<close> is the double nearest to 36/10.
\<close>

definition callback_sensor_b :: "config \<Rightarrow> leitura \<Rightarrow> radar \<Rightarrow> erro option \<times> radar" where
  "callback_sensor_b cfg l s =
     (case sensor_a_tempo s of
        None \<Rightarrow> (None, s)
      | Some t_a \<Rightarrow>
          let delta_t = d_sub (time_time l) t_a;
              s1 = s\<lparr>sensor_a_tempo := None\<rparr>
          in
          if d_le delta_t (Fin 0) \<or> d_less (Fin 10) delta_t then (None, s1)
          else
            (case py_div (SENSOR_DIST_M cfg) delta_t of
               Inl e \<Rightarrow> (Some e, s1)
             | Inr velocidade_ms \<Rightarrow>
                 let velocidade_kmh = d_mul velocidade_ms (fl (36 / 10)) in
                 if d_less (Fin 200) velocidade_kmh then (None, s1)
                 else
                   (case salvar_deteccao cfg (novo_uuid l) (ts_deteccao l) velocidade_kmh
                           ''A->B'' (deteccoes s1) of
                      Inl e \<Rightarrow> (Some e, s1)
                    | Inr (uid, db) \<Rightarrow>
                        (None,
                         s1\<lparr>deteccoes := db,
                            eventos_realtime :=
                              adicionar_evento_realtime (eventos_realtime s1)
                                \<lparr>ev_uuid = uid, ev_radar_id = RADAR_ID cfg,
                                 ev_radar_nome = RADAR_NAME cfg,
                                 ev_velocidade = py_round2 velocidade_kmh,
                                 ev_limite = SPEED_LIMIT cfg,
                                 ev_acima_limite = d_less (SPEED_LIMIT cfg) velocidade_kmh,
                                 ev_timestamp = ts_evento l,
                                 ev_direcao = ''A->B''\<rparr>\<rparr>))))"

subsection \<open>Configuration endpoint\<close>

text \<open>
  \<open>"\n".join(linhas)\<close>.
\<close>

fun str_join :: "string \<Rightarrow> string list \<Rightarrow> string" where
  "str_join sep [] = []"
| "str_join sep [l] = l"
| "str_join sep (l # m # ls) = l @ sep @ str_join sep (m # ls)"

text \<open>
  \<open>api_configurar\<close> rewrites \<open>/etc/radar/.env\<close> from the JSON object of the request.
  An f-string writes a value as its \<open>str\<close>, so the payload \<open>dados\<close> is the list of
  the items of the object with every value as its \<open>str\<close> (a JSON string is written
  as it is), and \<open>g\<close> gives the \<open>str\<close> of each module global by its name.
  \<open>dados_get\<close> is \<open>dados.get(chave, padrao)\<close>. The result is the HTTP status and the
  content of the file afterwards (\<open>None\<close>: no file): an empty payload is answered
  with 400 and nothing is written.
\<close>

definition dados_get :: "(string \<times> string) list \<Rightarrow> string \<Rightarrow> string \<Rightarrow> string" where
  "dados_get dados chave padrao = (case map_of dados chave of Some v \<Rightarrow> v | None \<Rightarrow> padrao)"

definition api_configurar ::
  "(string \<Rightarrow> string) \<Rightarrow> (string \<times> string) list \<Rightarrow> string option \<Rightarrow> nat \<times> string option" where
  "api_configurar g dados env =
     (if dados = [] then (400, env)
      else
        let linhas =
          [''RADAR_ID='' @ g ''RADAR_ID'',
           ''RADAR_NAME='' @ dados_get dados ''radar_name'' (g ''RADAR_NAME''),
           ''RADAR_LOCATION='' @ dados_get dados ''radar_location'' (g ''RADAR_LOCATION''),
           ''API_TOKEN='' @ dados_get dados ''api_token'' (g ''API_TOKEN''),
           ''SENSOR_A_PIN='' @ dados_get dados ''sensor_a_pin'' (g ''SENSOR_A_PIN''),
           ''SENSOR_B_PIN='' @ dados_get dados ''sensor_b_pin'' (g ''SENSOR_B_PIN''),
           ''SENSOR_DIST_M='' @ dados_get dados ''sensor_dist_m'' (g ''SENSOR_DIST_M''),
           ''SPEED_LIMIT='' @ dados_get dados ''speed_limit'' (g ''SPEED_LIMIT''),
           ''PG_HOST='' @ dados_get dados ''pg_host'' (g ''PG_HOST''),
           ''PG_PORT='' @ dados_get dados ''pg_port'' (g ''PG_PORT''),
           ''PG_DB='' @ dados_get dados ''pg_db'' (g ''PG_DB''),
           ''PG_USER='' @ dados_get dados ''pg_user'' (g ''PG_USER''),
           ''PG_PASS='' @ dados_get dados ''pg_pass'' (g ''PG_PASS''),
           ''SQLITE_PATH='' @ g ''SQLITE_PATH'',
           ''SYNC_INTERVAL='' @ dados_get dados ''sync_interval'' (g ''SYNC_INTERVAL''),
           ''API_PORT='' @ g ''API_PORT'']
        in (200, Some (str_join [CHR 0x0A] linhas @ [CHR 0x0A])))"

section \<open>Edge node: radar\_config\_routes.py\<close>

text \<open>
  Python strings are \<open>string\<close>; a \<open>char\<close> stands for the code point of the same
  number, so the text is limited to code points below 256. \<open>is_space\<close> is
  \<open>str.isspace\<close> and \<open>is_linebreak\<close> the line boundaries of \<open>str.splitlines\<close> on
  that range.
\<close>

definition is_space :: "char \<Rightarrow> bool" where
  "is_space c = ((of_char c :: nat) \<in> {9, 10, 11, 12, 13, 28, 29, 30, 31, 32, 133, 160})"

definition is_linebreak :: "char \<Rightarrow> bool" where
  "is_linebreak c = ((of_char c :: nat) \<in> {10, 11, 12, 13, 28, 29, 30, 133})"

definition strip :: "string \<Rightarrow> string" where
  "strip s = rev (dropWhile is_space (rev (dropWhile is_space s)))"

text \<open>
  \<open>str.splitlines()\<close>: \<open>cur\<close> holds the current line reversed; a carriage return
  followed by a line feed is one boundary; a last line without a boundary is kept
  when it is not empty.
\<close>

function splitlines_from :: "string \<Rightarrow> string \<Rightarrow> string list" where
  "splitlines_from cur [] = (if cur = [] then [] else [rev cur])"
| "splitlines_from cur (c # cs) =
     (if c = CHR 0x0D \<and> cs \<noteq> [] \<and> hd cs = CHR 0x0A
        then rev cur # splitlines_from [] (tl cs)
      else if is_linebreak c then rev cur # splitlines_from [] cs
      else splitlines_from (c # cur) cs)"
  by pat_completeness auto
termination
  by (relation "measure (\<lambda>(cur, s). length s)") auto

definition splitlines :: "string \<Rightarrow> string list" where
  "splitlines s = splitlines_from [] s"

text \<open>
  The body of the loop of \<open>api_config_local\<close> for one line:
  \<open>chave, _, valor = linha.partition("=")\<close> after the strip and the two tests.
  \<open>linha_pg_pass\<close> is the test that makes the loop skip a line: it is an entry
  (has an \<open>=\<close>, is no comment) whose stripped key is \<open>PG_PASS\<close>.
\<close>

definition linha_entrada :: "string \<Rightarrow> bool" where
  "linha_entrada l =
     (let linha = strip l in
      CHR ''='' \<in> set linha \<and> \<not> (linha \<noteq> [] \<and> hd linha = CHR ''#''))"

definition linha_chave :: "string \<Rightarrow> string" where
  "linha_chave l = strip (takeWhile (\<lambda>c. c \<noteq> CHR ''='') (strip l))"

definition linha_valor :: "string \<Rightarrow> string" where
  "linha_valor l = strip (drop 1 (dropWhile (\<lambda>c. c \<noteq> CHR ''='') (strip l)))"

definition linha_pg_pass :: "string \<Rightarrow> bool" where
  "linha_pg_pass l = (linha_entrada l \<and> linha_chave l = ''PG_PASS'')"

definition ler_linha :: "string \<Rightarrow> (string \<rightharpoonup> string) \<Rightarrow> (string \<rightharpoonup> string)" where
  "ler_linha l config =
     (if linha_entrada l then
        (if linha_chave l \<noteq> ''PG_PASS'' then config(linha_chave l \<mapsto> linha_valor l)
         else config)
      else config)"

text \<open>
  \<open>api_config_local\<close>: the argument is the content of \<open>/etc/radar/.env\<close>, \<open>None\<close>
  when the file does not exist; the result is the dictionary handed to \<open>jsonify\<close>.
\<close>

definition api_config_local :: "string option \<Rightarrow> (string \<rightharpoonup> string)" where
  "api_config_local env =
     (case env of
        None \<Rightarrow> Map.empty
      | Some texto \<Rightarrow> fold ler_linha (splitlines texto) Map.empty)"

section \<open>Manager: manager\_server.py\<close>

subsection \<open>JSON values and dictionaries\<close>

text \<open>
  The scalar JSON values the manager inspects, Python's truth test and Python's
  \<open>==\<close> on them (\<open>True == 1\<close> holds in Python). A dictionary is a map from keys to
  values; \<open>d.get(k)\<close> is \<open>get d k\<close> and \<open>d.get(k, v)\<close> is \<open>get_or d k v\<close>.
\<close>

datatype valor = Nulo | Booleano bool | Numero real | Texto string

type_synonym dict = "string \<rightharpoonup> valor"

fun truthy :: "valor \<Rightarrow> bool" where
  "truthy Nulo = False"
| "truthy (Booleano b) = b"
| "truthy (Numero n) = (n \<noteq> 0)"
| "truthy (Texto s) = (s \<noteq> [])"

fun py_eq :: "valor \<Rightarrow> valor \<Rightarrow> bool" where
  "py_eq (Booleano a) (Numero n) = ((if a then 1 else 0) = n)"
| "py_eq (Numero n) (Booleano a) = (n = (if a then 1 else 0))"
| "py_eq a b = (a = b)"

definition get_or :: "dict \<Rightarrow> string \<Rightarrow> valor \<Rightarrow> valor" where
  "get_or d k v = (case d k of None \<Rightarrow> v | Some x \<Rightarrow> x)"

definition get :: "dict \<Rightarrow> string \<Rightarrow> valor" where
  "get d k = get_or d k Nulo"

subsection \<open>Configuration endpoint\<close>

text \<open>
  \<open>api_get_config\<close>: \<open>cfg = dict(config); cfg.pop("pg_pass", None)\<close>. The values of
  the configuration dictionary are of any type (one of them is the registry).
\<close>

definition api_get_config :: "(string \<rightharpoonup> 'v) \<Rightarrow> (string \<rightharpoonup> 'v)" where
  "api_get_config config = config(''pg_pass'' := None)"

subsection \<open>Status cache and live event buffer\<close>

text \<open>
  The manager's state: the registry \<open>config["radares_conhecidos"]\<close> (a dictionary
  in insertion order, from node id to its descriptor), the cache \<open>status_radares\<close>
  and the buffer \<open>eventos_recentes\<close>, newest first.
\<close>

record gerente =
  radares_conhecidos :: "(string \<times> dict) list"
  status_radares :: "string \<rightharpoonup> dict"
  eventos_recentes :: "dict list"

definition atualizar_status_radar ::
  "string \<Rightarrow> (string \<rightharpoonup> dict) \<Rightarrow> string \<Rightarrow> dict \<Rightarrow> (string \<rightharpoonup> dict)" where
  "atualizar_status_radar agora sr radar_id dados =
     sr(radar_id \<mapsto> dados(''ultima_atualizacao'' \<mapsto> Texto agora))"

definition adicionar_evento :: "dict list \<Rightarrow> dict \<Rightarrow> dict list" where
  "adicionar_evento eventos ev =
     (let es = ev # eventos in if length es > 200 then butlast es else es)"

text \<open>\<open>api_eventos\<close> of the manager: \<open>eventos_recentes[:50]\<close>.\<close>

definition manager_api_eventos :: "gerente \<Rightarrow> dict list" where
  "manager_api_eventos g = take 50 (eventos_recentes g)"

text \<open>
  \<open>api_radares\<close>: the entry of the listing for one registered node,
  \<open>{"radar_id": ..., "ip": ..., "radar_nome": ..., "descoberto_em": ...,
  "online": status.get("online", False), **status}\<close>.
\<close>

definition api_radares_item :: "gerente \<Rightarrow> string \<times> dict \<Rightarrow> dict" where
  "api_radares_item g entrada =
     (let radar_id = fst entrada; info = snd entrada;
          status = (case status_radares g radar_id of None \<Rightarrow> Map.empty | Some st \<Rightarrow> st)
      in
      [''radar_id'' \<mapsto> Texto radar_id,
       ''ip'' \<mapsto> get info ''ip'',
       ''radar_nome'' \<mapsto> get_or info ''radar_nome'' (Texto radar_id),
       ''descoberto_em'' \<mapsto> get info ''descoberto_em'',
       ''online'' \<mapsto> get_or status ''online'' (Booleano False)] ++ status)"

definition api_radares :: "gerente \<Rightarrow> dict list" where
  "api_radares g = map (api_radares_item g) (radares_conhecidos g)"

text \<open>
  No two entries of a list of events have equal \<open>uuid\<close>s, with the equality the
  polling loop uses.
\<close>

fun sem_repetidos :: "dict list \<Rightarrow> bool" where
  "sem_repetidos [] = True"
| "sem_repetidos (e # es) =
     (\<not> list_ex (\<lambda>x. py_eq (get x ''uuid'') (get e ''uuid'')) es \<and> sem_repetidos es)"

subsection \<open>Calls to a node\<close>

text \<open>
  The body of a reply is a JSON object or a JSON array of objects. The network is a
  function from the node's address (the value stored under \<open>ip\<close>) and the endpoint
  to what \<open>requests\<close> does: \<open>Inl\<close> the text of the exception it raises (timeout,
  refused connection, a body that is not JSON), \<open>Inr\<close> the body and the status
  code. \<open>chamar_radar\<close> turns the exception into \<open>({"erro": ...}, 0)\<close>.
\<close>

datatype resposta = Dicionario dict | Lista "dict list"

type_synonym rede = "valor \<Rightarrow> string \<Rightarrow> string + (resposta \<times> nat)"

definition chamar_radar :: "rede \<Rightarrow> valor \<Rightarrow> string \<Rightarrow> resposta \<times> nat" where
  "chamar_radar net ip endpoint =
     (case net ip endpoint of
        Inl e \<Rightarrow> (Dicionario [''erro'' \<mapsto> Texto e], 0)
      | Inr r \<Rightarrow> r)"

subsection \<open>Polling\<close>

text \<open>
  The innermost loop body of \<open>loop_polling\<close>: the event is put in front of the
  buffer when its \<open>uuid\<close> is truthy and no entry among the first 50 of the buffer
  has an equal \<open>uuid\<close>.
\<close>

definition novo_evento :: "dict \<Rightarrow> gerente \<Rightarrow> gerente" where
  "novo_evento ev g =
     (let ev_key = get_or ev ''uuid'' (Texto []) in
      if truthy ev_key \<and>
         \<not> list_ex (\<lambda>e. py_eq (get e ''uuid'') ev_key) (take 50 (eventos_recentes g))
      then g\<lparr>eventos_recentes := adicionar_evento (eventos_recentes g) ev\<rparr>
      else g)"

text \<open>
  The body of \<open>for radar_id, info in ...\<close> for one registered node. \<open>agora\<close> is
  \<open>datetime.now().isoformat()\<close>. A reply with code 200 whose body is an array makes
  \<open>status["ip"] = ip\<close> raise; \<open>except Exception: pass\<close> then leaves the state as it
  was.
\<close>

definition poll_radar :: "rede \<Rightarrow> string \<Rightarrow> string \<times> dict \<Rightarrow> gerente \<Rightarrow> gerente" where
  "poll_radar net agora entrada g =
     (let radar_id = fst entrada; info = snd entrada; ip = get info ''ip'' in
      if \<not> truthy ip then g
      else
        (case chamar_radar net ip ''status'' of
           (status, code) \<Rightarrow>
             if code = 200 then
               (case status of
                  Lista xs \<Rightarrow> g
                | Dicionario st \<Rightarrow>
                    let st1 = st(''ip'' \<mapsto> ip, ''online'' \<mapsto> Booleano True);
                        g1 = g\<lparr>status_radares :=
                                 atualizar_status_radar agora (status_radares g) radar_id st1\<rparr>
                    in
                    (case chamar_radar net ip ''eventos'' of
                       (evts, code2) \<Rightarrow>
                         if code2 = 200 then
                           (case evts of
                              Lista es \<Rightarrow> fold novo_evento (take 5 es) g1
                            | Dicionario d \<Rightarrow> g1)
                         else g1))
             else
               g\<lparr>status_radares :=
                    atualizar_status_radar agora (status_radares g) radar_id
                      [''ip'' \<mapsto> ip, ''online'' \<mapsto> Booleano False,
                       ''radar_id'' \<mapsto> Texto radar_id,
                       ''radar_nome'' \<mapsto> get_or info ''radar_nome'' (Texto radar_id)]\<rparr>))"

text \<open>
  One pass of the \<open>while True\<close> loop over the registry as it stands when the pass
  starts, and any number of passes, each with the network and the clock it meets.
\<close>

definition ciclo_polling :: "rede \<Rightarrow> string \<Rightarrow> gerente \<Rightarrow> gerente" where
  "ciclo_polling net agora g = fold (poll_radar net agora) (radares_conhecidos g) g"

definition loop_polling :: "(rede \<times> string) list \<Rightarrow> gerente \<Rightarrow> gerente" where
  "loop_polling ciclos g = fold (\<lambda>(net, agora) g. ciclo_polling net agora g) ciclos g"

subsection \<open>Network scan\<close>

text \<open>
  \<open>descobrir_radar\<close>: the argument is what the GET of \<open>/api/ping\<close> does, \<open>None\<close> for
  an exception (timeout, refused connection, a body that is not JSON). A body that
  is not an object makes \<open>dados.get\<close> raise, which the same \<open>except\<close> catches.
\<close>

definition descobrir_radar :: "(nat \<times> resposta) option \<Rightarrow> string \<Rightarrow> dict option" where
  "descobrir_radar r ip =
     (case r of
        None \<Rightarrow> None
      | Some (status_code, corpo) \<Rightarrow>
          if status_code = 200 then
            (case corpo of
               Lista xs \<Rightarrow> None
             | Dicionario dados \<Rightarrow>
                 if py_eq (get dados ''servico'') (Texto ''radar'')
                 then Some ([''ip'' \<mapsto> Texto ip] ++ dados) else None)
          else None)"

text \<open>
  \<open>escanear_rede\<close> with its clock made explicit, in milliseconds. The environment
  gives, for every host, how long its probe thread runs and what the GET does. A
  thread is a host with the time of its \<open>t.start()\<close>; it is alive from then until
  its probe has run. Starting a thread and testing the threads take no time; only
  \<open>time.sleep(0.1)\<close> and \<open>t.join(timeout=SCAN_TIMEOUT + 1)\<close> move the clock.
\<close>

type_synonym ping = "string \<Rightarrow> nat \<times> (nat \<times> resposta) option"

record varredura =
  relogio :: nat
  threads :: "(string \<times> nat) list"

definition is_alive :: "ping \<Rightarrow> nat \<Rightarrow> string \<times> nat \<Rightarrow> bool" where
  "is_alive env t th = (t < snd th + fst (env (fst th)))"

text \<open>The number of probe threads alive at the scan's current time.\<close>

definition em_voo :: "ping \<Rightarrow> varredura \<Rightarrow> nat" where
  "em_voo env v = length (filter (is_alive env (relogio v)) (threads v))"

text \<open>One iteration of \<open>for ip in rede.hosts()\<close>.\<close>

definition iniciar :: "ping \<Rightarrow> string \<Rightarrow> varredura \<Rightarrow> varredura" where
  "iniciar env ip v =
     (let v1 = v\<lparr>threads := threads v @ [(ip, relogio v)]\<rparr> in
      if em_voo env v1 \<ge> 50 then v1\<lparr>relogio := relogio v1 + 100\<rparr> else v1)"

text \<open>One iteration of \<open>for t in threads: t.join(timeout=SCAN_TIMEOUT + 1)\<close>.\<close>

definition juntar :: "ping \<Rightarrow> string \<times> nat \<Rightarrow> varredura \<Rightarrow> varredura" where
  "juntar env th v =
     (if is_alive env (relogio v) th
      then v\<lparr>relogio := min (snd th + fst (env (fst th))) (relogio v + 2500)\<rparr>
      else v)"

text \<open>
  The list \<open>encontrados\<close> at time \<open>t\<close>: the descriptors of the probes that have
  finished by then, in the order in which they finished.
\<close>

definition encontrados :: "ping \<Rightarrow> nat \<Rightarrow> (string \<times> nat) list \<Rightarrow> dict list" where
  "encontrados env t ths =
     List.map_filter (\<lambda>th. descobrir_radar (snd (env (fst th))) (fst th))
       (sort_key (\<lambda>th. snd th + fst (env (fst th)))
          (filter (\<lambda>th. \<not> is_alive env t th) ths))"

text \<open>
  \<open>escanear_rede\<close>: the argument is what \<open>ipaddress.ip_network\<close> gives for the CIDR
  text, \<open>Inl\<close> the message of its \<open>ValueError\<close> or \<open>Inr\<close> the hosts of the network.
  The registration of the found nodes in the configuration is not part of this
  function's model.
\<close>

definition escanear_rede :: "ping \<Rightarrow> string + string list \<Rightarrow> dict list" where
  "escanear_rede env rede =
     (case rede of
        Inl e \<Rightarrow> [[''erro'' \<mapsto> Texto e]]
      | Inr hosts \<Rightarrow>
          let v = fold (iniciar env) hosts \<lparr>relogio = 0, threads = []\<rparr>;
              v2 = fold (juntar env) (threads v) v
          in encontrados env (relogio v2) (threads v2))"

section \<open>Concrete inputs\<close>

text \<open>The inputs at which the theorems below are instantiated.\<close>

definition cfg_ex :: config where
  "cfg_ex = \<lparr>RADAR_ID = ''r1'', RADAR_NAME = ''portaria'', SENSOR_DIST_M = Fin 1,
            SPEED_LIMIT = Fin 20,
            PG_AVAILABLE = True, PG_HOST = ''10.0.0.9''\<rparr>"

definition radar_vazio :: radar where
  "radar_vazio = \<lparr>sensor_a_tempo = None, deteccoes = [], eventos_realtime = []\<rparr>"

text \<open>The same node after an A trigger at time 0.\<close>

definition radar_armado :: radar where
  "radar_armado = \<lparr>sensor_a_tempo = Some (Fin 0), deteccoes = [], eventos_realtime = []\<rparr>"

definition leitura_ex :: "double \<Rightarrow> leitura" where
  "leitura_ex t = \<lparr>time_time = t, novo_uuid = ''u1'', ts_deteccao = ''t1'', ts_evento = ''t2''\<rparr>"

definition det_ex :: deteccao where
  "det_ex = \<lparr>det_id = 1, det_uuid = ''u1'', det_radar_id = ''r1'', det_timestamp = ''t1'',
            det_velocidade = Fin 20, det_direcao = ''A->B'', det_acima_limite = False,
            det_sincronizado = False\<rparr>"

definition central_ex :: central where
  "central_ex =
     \<lparr>radar_deteccoes = Some [\<lparr>pg_id = 1, pg_uuid = ''u1'', pg_radar_id = ''r1'',
        pg_radar_nome = ''portaria'', pg_timestamp = ''t1'', pg_velocidade = Numeric 20,
        pg_direcao = ''A->B'', pg_acima_limite = False, pg_criado_em = ''t3''\<rparr>],
      radar_deteccoes_id_seq = 1\<rparr>"

definition amb_ok :: ambiente where
  "amb_ok = \<lparr>conecta = True, agora_pg = ''t4'', commit_ok = True\<rparr>"


text \<open>
  Two registered nodes. In pass \<open>k\<close> of the polling loop both answer the status
  call; node A serves its one event, with uuid \<open>a\<close>, and node B, which has seen
  five new detections since the pass before, serves its 20 most recent events,
  newest first.
\<close>

definition evento_a :: dict where
  "evento_a = [''uuid'' \<mapsto> Texto ''a'']"

text \<open>The decimal numeral of a number, as \<open>str\<close> prints it.\<close>

function decimal :: "nat \<Rightarrow> string" where
  "decimal n =
     (if n < 10 then [char_of (48 + n)] else decimal (n div 10) @ [char_of (48 + n mod 10)])"
  by pat_completeness auto
termination
  by (relation "measure id") auto

definition evento_b :: "nat \<Rightarrow> dict" where
  "evento_b n = [''uuid'' \<mapsto> Texto (''b'' @ decimal n)]"

definition info_a :: dict where
  "info_a = [''ip'' \<mapsto> Texto ''10.0.0.1'', ''radar_nome'' \<mapsto> Texto ''portaria'']"

definition info_b :: dict where
  "info_b = [''ip'' \<mapsto> Texto ''10.0.0.2'', ''radar_nome'' \<mapsto> Texto ''garagem'']"

definition gerente_ex :: gerente where
  "gerente_ex =
     \<lparr>radares_conhecidos = [(''A'', info_a), (''B'', info_b)],
      status_radares = Map.empty,
      eventos_recentes = []\<rparr>"

definition rede_ex :: "nat \<Rightarrow> rede" where
  "rede_ex k ip endpoint =
     (if endpoint = ''status'' then Inr (Dicionario Map.empty, 200)
      else if ip = Texto ''10.0.0.1'' then Inr (Lista [evento_a], 200)
      else Inr (Lista (api_eventos (map evento_b [0 ..< 5 * k + 5])), 200))"


text \<open>
  The hosts of \<open>192.168.1.0/24\<close>, and an environment in which no host answers:
  every probe runs into its timeout of 1.5 s.
\<close>

definition hosts_24 :: "string list" where
  "hosts_24 = map (\<lambda>n. ''192.168.1.'' @ decimal n) [1 ..< 255]"

definition ping_mudo :: ping where
  "ping_mudo ip = (1500, None)"

text \<open>
  The module globals of a node as the service starts with an environment file that
  sets the central database, and two passwords: one of a single line, one of two
  lines.
\<close>

definition globais_ex :: "string \<Rightarrow> string" where
  "globais_ex n =
     (case map_of
        [(''RADAR_ID'', ''ab12cd34''), (''RADAR_NAME'', ''portaria''),
         (''RADAR_LOCATION'', ''bloco A''), (''API_TOKEN'', ''tok''),
         (''SENSOR_A_PIN'', ''17''), (''SENSOR_B_PIN'', ''27''),
         (''SENSOR_DIST_M'', ''1.0''), (''SPEED_LIMIT'', ''20.0''),
         (''PG_HOST'', ''10.0.0.9''), (''PG_PORT'', ''5432''), (''PG_DB'', ''radares''),
         (''PG_USER'', ''radar''), (''PG_PASS'', ''antiga''),
         (''SQLITE_PATH'', ''/var/lib/radar/radar_local.db''), (''SYNC_INTERVAL'', ''30''),
         (''API_PORT'', ''5000'')] n of
        Some v \<Rightarrow> v
      | None \<Rightarrow> [])"

definition senha_uma_linha :: string where
  "senha_uma_linha = ''xy''"

definition senha_duas_linhas :: string where
  "senha_duas_linhas = ''ab'' @ [CHR 0x0A] @ ''cd=ef''"

section \<open>Properties\<close>

text \<open>
  C8. A B trigger that finds the armed slot empty is a no-op: the callback returns
  normally (no exception reaches the caller) and the whole state, the slot, the
  local table and the event buffer, is exactly what it was.
\<close>

theorem C8_b_sem_a_noop:
  "sensor_a_tempo s = None \<Longrightarrow> callback_sensor_b cfg l s = (None, s)"
  by (simp add: callback_sensor_b_def)

theorem C8_witness:
  "sensor_a_tempo radar_vazio = None \<and>
   callback_sensor_b cfg_ex (leitura_ex (Fin 5)) radar_vazio = (None, radar_vazio)"
  using C8_b_sem_a_noop [of radar_vazio cfg_ex "leitura_ex (Fin 5)"]
  by (simp add: radar_vazio_def)

lemma d_less_nao_le: "d_less x y \<Longrightarrow> \<not> d_le y x"
  by (cases x; cases y) (simp_all add: d_less_def d_le_def)

lemma d_le_nao_less: "d_le x y \<Longrightarrow> \<not> d_less y x"
  by (cases x; cases y) (simp_all add: d_less_def d_le_def)

lemma d_le_nao_nan: "d_le x y \<Longrightarrow> x \<noteq> NaN"
  by (cases x) (simp_all add: d_le_def)

lemma py_div_positivo: "d_less (Fin 0) y \<Longrightarrow> \<exists>v. py_div x y = Inr v"
  by (cases y) (simp_all add: d_less_def py_div_def)

lemma escolhe: "\<exists>v. f = Inr v \<and> P v \<Longrightarrow> f = Inr w \<Longrightarrow> P w"
  by auto

text \<open>
  C2. A B trigger that finds the slot armed with \<open>t_a\<close>, in Python's float
  arithmetic throughout: \<open>delta_t = time.time() - t_a\<close>. If \<open>delta_t <= 0\<close> or
  \<open>delta_t > 10\<close>, nothing is recorded and the slot is cleared. If \<open>0 < delta_t\<close> and
  \<open>delta_t <= 10\<close>, the division \<open>SENSOR_DIST_M / delta_t\<close> does not raise, and with
  \<open>velocidade_kmh = (SENSOR_DIST_M / delta_t) * 3.6\<close>: if \<open>velocidade_kmh > 200\<close>,
  nothing is recorded and the slot is cleared; if \<open>velocidade_kmh <= 200\<close>, the
  callback returns normally and records exactly one measurement, one new row of the
  local table with that speed and with the over-limit flag set iff the speed is
  strictly greater than \<open>SPEED_LIMIT\<close>, and one event for the buffer with the same
  flag and the speed rounded to two places, and the slot is cleared. The uuid drawn
  for the row is new to the local table, as detection ids are unique. A NaN
  satisfies none of the comparisons, so no case speaks of it.
\<close>

theorem C2_b_apos_a:
  assumes "sensor_a_tempo s = Some t_a"
  shows "let delta_t = d_sub (time_time l) t_a in
         (d_le delta_t (Fin 0) \<or> d_less (Fin 10) delta_t \<longrightarrow>
            callback_sensor_b cfg l s = (None, s\<lparr>sensor_a_tempo := None\<rparr>)) \<and>
         (d_less (Fin 0) delta_t \<and> d_le delta_t (Fin 10) \<longrightarrow>
            (\<exists>velocidade_ms.
               py_div (SENSOR_DIST_M cfg) delta_t = Inr velocidade_ms \<and>
               (let velocidade_kmh = d_mul velocidade_ms (fl (36 / 10)) in
                (d_less (Fin 200) velocidade_kmh \<longrightarrow>
                   callback_sensor_b cfg l s = (None, s\<lparr>sensor_a_tempo := None\<rparr>)) \<and>
                (d_le velocidade_kmh (Fin 200) \<and>
                 novo_uuid l \<notin> set (map det_uuid (deteccoes s)) \<longrightarrow>
                   callback_sensor_b cfg l s =
                     (None,
                      s\<lparr>sensor_a_tempo := None,
                        deteccoes := deteccoes s @
                          [\<lparr>det_id = Suc (length (deteccoes s)), det_uuid = novo_uuid l,
                            det_radar_id = RADAR_ID cfg, det_timestamp = ts_deteccao l,
                            det_velocidade = velocidade_kmh, det_direcao = ''A->B'',
                            det_acima_limite = d_less (SPEED_LIMIT cfg) velocidade_kmh,
                            det_sincronizado = False\<rparr>],
                        eventos_realtime := adicionar_evento_realtime (eventos_realtime s)
                          \<lparr>ev_uuid = novo_uuid l, ev_radar_id = RADAR_ID cfg,
                           ev_radar_nome = RADAR_NAME cfg,
                           ev_velocidade = py_round2 velocidade_kmh,
                           ev_limite = SPEED_LIMIT cfg,
                           ev_acima_limite = d_less (SPEED_LIMIT cfg) velocidade_kmh,
                           ev_timestamp = ts_evento l, ev_direcao = ''A->B''\<rparr>\<rparr>)))))"
proof -
  define delta_t where "delta_t = d_sub (time_time l) t_a"
  have fora: "callback_sensor_b cfg l s = (None, s\<lparr>sensor_a_tempo := None\<rparr>)"
    if "d_le delta_t (Fin 0) \<or> d_less (Fin 10) delta_t"
    using that assms by (simp add: callback_sensor_b_def Let_def delta_t_def)
  have dentro: "\<exists>velocidade_ms.
       py_div (SENSOR_DIST_M cfg) delta_t = Inr velocidade_ms \<and>
       (let velocidade_kmh = d_mul velocidade_ms (fl (36 / 10)) in
        (d_less (Fin 200) velocidade_kmh \<longrightarrow>
           callback_sensor_b cfg l s = (None, s\<lparr>sensor_a_tempo := None\<rparr>)) \<and>
        (d_le velocidade_kmh (Fin 200) \<and>
         novo_uuid l \<notin> set (map det_uuid (deteccoes s)) \<longrightarrow>
           callback_sensor_b cfg l s =
             (None,
              s\<lparr>sensor_a_tempo := None,
                deteccoes := deteccoes s @
                  [\<lparr>det_id = Suc (length (deteccoes s)), det_uuid = novo_uuid l,
                    det_radar_id = RADAR_ID cfg, det_timestamp = ts_deteccao l,
                    det_velocidade = velocidade_kmh, det_direcao = ''A->B'',
                    det_acima_limite = d_less (SPEED_LIMIT cfg) velocidade_kmh,
                    det_sincronizado = False\<rparr>],
                eventos_realtime := adicionar_evento_realtime (eventos_realtime s)
                  \<lparr>ev_uuid = novo_uuid l, ev_radar_id = RADAR_ID cfg,
                   ev_radar_nome = RADAR_NAME cfg,
                   ev_velocidade = py_round2 velocidade_kmh,
                   ev_limite = SPEED_LIMIT cfg,
                   ev_acima_limite = d_less (SPEED_LIMIT cfg) velocidade_kmh,
                   ev_timestamp = ts_evento l, ev_direcao = ''A->B''\<rparr>\<rparr>)))"
    if pos: "d_less (Fin 0) delta_t" and ate: "d_le delta_t (Fin 10)"
  proof -
    obtain ms where ms: "py_div (SENSOR_DIST_M cfg) delta_t = Inr ms"
      using py_div_positivo [OF pos] by blast
    define kmh where "kmh = d_mul ms (fl (36 / 10))"
    have guarda: "\<not> (d_le delta_t (Fin 0) \<or> d_less (Fin 10) delta_t)"
      using d_less_nao_le [OF pos] d_le_nao_less [OF ate] by simp
    have cb: "callback_sensor_b cfg l s =
        (if d_less (Fin 200) kmh then (None, s\<lparr>sensor_a_tempo := None\<rparr>)
         else (case salvar_deteccao cfg (novo_uuid l) (ts_deteccao l) kmh ''A->B'' (deteccoes s) of
                 Inl e \<Rightarrow> (Some e, s\<lparr>sensor_a_tempo := None\<rparr>)
               | Inr (uid, db) \<Rightarrow>
                   (None,
                    s\<lparr>sensor_a_tempo := None, deteccoes := db,
                      eventos_realtime := adicionar_evento_realtime (eventos_realtime s)
                        \<lparr>ev_uuid = uid, ev_radar_id = RADAR_ID cfg,
                         ev_radar_nome = RADAR_NAME cfg, ev_velocidade = py_round2 kmh,
                         ev_limite = SPEED_LIMIT cfg,
                         ev_acima_limite = d_less (SPEED_LIMIT cfg) kmh,
                         ev_timestamp = ts_evento l, ev_direcao = ''A->B''\<rparr>\<rparr>)))"
      unfolding callback_sensor_b_def assms option.case Let_def delta_t_def [symmetric]
        ms sum.case kmh_def [symmetric]
      using guarda by (simp split: sum.splits prod.splits)
    have descarta: "callback_sensor_b cfg l s = (None, s\<lparr>sensor_a_tempo := None\<rparr>)"
      if "d_less (Fin 200) kmh"
      using that by (simp add: cb)
    have emite: "callback_sensor_b cfg l s =
             (None,
              s\<lparr>sensor_a_tempo := None,
                deteccoes := deteccoes s @
                  [\<lparr>det_id = Suc (length (deteccoes s)), det_uuid = novo_uuid l,
                    det_radar_id = RADAR_ID cfg, det_timestamp = ts_deteccao l,
                    det_velocidade = kmh, det_direcao = ''A->B'',
                    det_acima_limite = d_less (SPEED_LIMIT cfg) kmh,
                    det_sincronizado = False\<rparr>],
                eventos_realtime := adicionar_evento_realtime (eventos_realtime s)
                  \<lparr>ev_uuid = novo_uuid l, ev_radar_id = RADAR_ID cfg,
                   ev_radar_nome = RADAR_NAME cfg,
                   ev_velocidade = py_round2 kmh,
                   ev_limite = SPEED_LIMIT cfg,
                   ev_acima_limite = d_less (SPEED_LIMIT cfg) kmh,
                   ev_timestamp = ts_evento l, ev_direcao = ''A->B''\<rparr>\<rparr>)"
      if le: "d_le kmh (Fin 200)" and novo: "novo_uuid l \<notin> set (map det_uuid (deteccoes s))"
    proof -
      have "\<not> d_less (Fin 200) kmh" "kmh \<noteq> NaN"
        using d_le_nao_less [OF le] d_le_nao_nan [OF le] by simp_all
      then show ?thesis
        using novo by (simp add: cb salvar_deteccao_def Let_def)
    qed
    note a = descarta [unfolded kmh_def, THEN impI [of "d_less (Fin 200) (d_mul ms (fl (36 / 10)))"]]
    have b: "d_le (d_mul ms (fl (36 / 10))) (Fin 200) \<and>
             novo_uuid l \<notin> set (map det_uuid (deteccoes s)) \<longrightarrow>
             callback_sensor_b cfg l s =
             (None,
              s\<lparr>sensor_a_tempo := None,
                deteccoes := deteccoes s @
                  [\<lparr>det_id = Suc (length (deteccoes s)), det_uuid = novo_uuid l,
                    det_radar_id = RADAR_ID cfg, det_timestamp = ts_deteccao l,
                    det_velocidade = d_mul ms (fl (36 / 10)), det_direcao = ''A->B'',
                    det_acima_limite = d_less (SPEED_LIMIT cfg) (d_mul ms (fl (36 / 10))),
                    det_sincronizado = False\<rparr>],
                eventos_realtime := adicionar_evento_realtime (eventos_realtime s)
                  \<lparr>ev_uuid = novo_uuid l, ev_radar_id = RADAR_ID cfg,
                   ev_radar_nome = RADAR_NAME cfg,
                   ev_velocidade = py_round2 (d_mul ms (fl (36 / 10))),
                   ev_limite = SPEED_LIMIT cfg,
                   ev_acima_limite = d_less (SPEED_LIMIT cfg) (d_mul ms (fl (36 / 10))),
                   ev_timestamp = ts_evento l, ev_direcao = ''A->B''\<rparr>\<rparr>)"
      using emite [unfolded kmh_def] by (intro impI) (elim conjE)
    show ?thesis
      unfolding Let_def by (rule exI [of _ ms]) (rule conjI [OF ms conjI [OF a b]])
  qed
  have f: "d_le delta_t (Fin 0) \<or> d_less (Fin 10) delta_t \<longrightarrow>
            callback_sensor_b cfg l s = (None, s\<lparr>sensor_a_tempo := None\<rparr>)"
    using fora by (intro impI)
  show ?thesis
    unfolding Let_def delta_t_def [symmetric]
    by (rule conjI [OF f]) (intro impI, elim conjE, rule dentro [unfolded Let_def])
qed

theorem C2_witness:
  "callback_sensor_b cfg_ex (leitura_ex (fl (18 / 100))) radar_armado =
     (None,
      \<lparr>sensor_a_tempo = None,
       deteccoes = [\<lparr>det_id = 1, det_uuid = ''u1'', det_radar_id = ''r1'',
                     det_timestamp = ''t1'', det_velocidade = Fin 20, det_direcao = ''A->B'',
                     det_acima_limite = False, det_sincronizado = False\<rparr>],
       eventos_realtime = [\<lparr>ev_uuid = ''u1'', ev_radar_id = ''r1'',
                     ev_radar_nome = ''portaria'', ev_velocidade = Fin 20, ev_limite = Fin 20,
                     ev_acima_limite = False, ev_timestamp = ''t2'', ev_direcao = ''A->B''\<rparr>]\<rparr>) \<and>
   callback_sensor_b (cfg_ex\<lparr>SPEED_LIMIT := Fin 30\<rparr>) (leitura_ex (fl (12 / 100))) radar_armado =
     (None,
      \<lparr>sensor_a_tempo = None,
       deteccoes = [\<lparr>det_id = 1, det_uuid = ''u1'', det_radar_id = ''r1'',
                     det_timestamp = ''t1'',
                     det_velocidade = Fin (8444249301319681 / 281474976710656),
                     det_direcao = ''A->B'',
                     det_acima_limite = True, det_sincronizado = False\<rparr>],
       eventos_realtime = [\<lparr>ev_uuid = ''u1'', ev_radar_id = ''r1'',
                     ev_radar_nome = ''portaria'', ev_velocidade = Fin 30, ev_limite = Fin 30,
                     ev_acima_limite = True, ev_timestamp = ''t2'', ev_direcao = ''A->B''\<rparr>]\<rparr>) \<and>
   callback_sensor_b (cfg_ex\<lparr>SENSOR_DIST_M := fl (54 / 100)\<rparr>) (leitura_ex (fl (972 / 100000)))
     radar_armado = (None, radar_vazio) \<and>
   callback_sensor_b cfg_ex (leitura_ex (Fin 11)) radar_armado = (None, radar_vazio)"
proof -
  have arm: "sensor_a_tempo radar_armado = Some (Fin 0)"
    by (simp add: radar_armado_def)
  have limpa: "radar_armado\<lparr>sensor_a_tempo := None\<rparr> = radar_vazio"
    by (simp add: radar_armado_def radar_vazio_def)
  have novo: "novo_uuid (leitura_ex x) \<notin> set (map det_uuid (deteccoes radar_armado))" for x
    by (simp add: radar_armado_def)
  have p1: "d_less (Fin 0) (d_sub (time_time (leitura_ex (fl (18 / 100)))) (Fin 0))"
    and q1: "d_le (d_sub (time_time (leitura_ex (fl (18 / 100)))) (Fin 0)) (Fin 10)"
    and d1: "py_div (SENSOR_DIST_M cfg_ex) (d_sub (time_time (leitura_ex (fl (18 / 100)))) (Fin 0)) =
              Inr (Fin (3127499741229511 / 562949953421312))"
    and k1: "d_mul (Fin (3127499741229511 / 562949953421312)) (fl (36 / 10)) = Fin 20"
    and l1: "d_le (Fin 20) (Fin 200)"
    and a1: "\<not> d_less (SPEED_LIMIT cfg_ex) (Fin 20)"
    and r1: "py_round2 (Fin 20) = Fin 20"
    by code_simp+
  have p2: "d_less (Fin 0) (d_sub (time_time (leitura_ex (fl (12 / 100)))) (Fin 0))"
    and q2: "d_le (d_sub (time_time (leitura_ex (fl (12 / 100)))) (Fin 0)) (Fin 10)"
    and d2: "py_div (SENSOR_DIST_M (cfg_ex\<lparr>SPEED_LIMIT := Fin 30\<rparr>))
               (d_sub (time_time (leitura_ex (fl (12 / 100)))) (Fin 0)) =
              Inr (Fin (4691249611844267 / 562949953421312))"
    and k2: "d_mul (Fin (4691249611844267 / 562949953421312)) (fl (36 / 10)) =
              Fin (8444249301319681 / 281474976710656)"
    and l2: "d_le (Fin (8444249301319681 / 281474976710656)) (Fin 200)"
    and a2: "d_less (SPEED_LIMIT (cfg_ex\<lparr>SPEED_LIMIT := Fin 30\<rparr>))
               (Fin (8444249301319681 / 281474976710656))"
    and r2: "py_round2 (Fin (8444249301319681 / 281474976710656)) = Fin 30"
    by code_simp+
  have p3: "d_less (Fin 0) (d_sub (time_time (leitura_ex (fl (972 / 100000)))) (Fin 0))"
    and q3: "d_le (d_sub (time_time (leitura_ex (fl (972 / 100000)))) (Fin 0)) (Fin 10)"
    and d3: "py_div (SENSOR_DIST_M (cfg_ex\<lparr>SENSOR_DIST_M := fl (54 / 100)\<rparr>))
               (d_sub (time_time (leitura_ex (fl (972 / 100000)))) (Fin 0)) =
              Inr (Fin (7818749353073779 / 140737488355328))"
    and k3: "d_less (Fin 200) (d_mul (Fin (7818749353073779 / 140737488355328)) (fl (36 / 10)))"
    by code_simp+
  have p4: "d_less (Fin 10) (d_sub (time_time (leitura_ex (Fin 11))) (Fin 0))"
    by code_simp
  note t1 = C2_b_apos_a [OF arm, of "leitura_ex (fl (18 / 100))" cfg_ex, unfolded Let_def,
      THEN conjunct2, THEN mp, OF conjI [OF p1 q1]]
  note t2 = C2_b_apos_a [OF arm, of "leitura_ex (fl (12 / 100))" "cfg_ex\<lparr>SPEED_LIMIT := Fin 30\<rparr>",
      unfolded Let_def, THEN conjunct2, THEN mp, OF conjI [OF p2 q2]]
  note t3 = C2_b_apos_a [OF arm, of "leitura_ex (fl (972 / 100000))"
      "cfg_ex\<lparr>SENSOR_DIST_M := fl (54 / 100)\<rparr>",
      unfolded Let_def, THEN conjunct2, THEN mp, OF conjI [OF p3 q3]]
  note t4 = C2_b_apos_a [OF arm, of "leitura_ex (Fin 11)" cfg_ex, unfolded Let_def,
      THEN conjunct1, THEN mp, OF disjI2 [OF p4]]
  have c1: "callback_sensor_b cfg_ex (leitura_ex (fl (18 / 100))) radar_armado =
     (None,
      \<lparr>sensor_a_tempo = None,
       deteccoes = [\<lparr>det_id = 1, det_uuid = ''u1'', det_radar_id = ''r1'',
                     det_timestamp = ''t1'', det_velocidade = Fin 20, det_direcao = ''A->B'',
                     det_acima_limite = False, det_sincronizado = False\<rparr>],
       eventos_realtime = [\<lparr>ev_uuid = ''u1'', ev_radar_id = ''r1'',
                     ev_radar_nome = ''portaria'', ev_velocidade = Fin 20, ev_limite = Fin 20,
                     ev_acima_limite = False, ev_timestamp = ''t2'', ev_direcao = ''A->B''\<rparr>]\<rparr>)"
    using escolhe [OF t1 d1, unfolded k1 r1, THEN conjunct2, THEN mp, OF conjI [OF l1 novo]] a1
    by (simp add: radar_armado_def leitura_ex_def cfg_ex_def adicionar_evento_realtime_def)
  have c2: "callback_sensor_b (cfg_ex\<lparr>SPEED_LIMIT := Fin 30\<rparr>) (leitura_ex (fl (12 / 100))) radar_armado =
     (None,
      \<lparr>sensor_a_tempo = None,
       deteccoes = [\<lparr>det_id = 1, det_uuid = ''u1'', det_radar_id = ''r1'',
                     det_timestamp = ''t1'',
                     det_velocidade = Fin (8444249301319681 / 281474976710656),
                     det_direcao = ''A->B'',
                     det_acima_limite = True, det_sincronizado = False\<rparr>],
       eventos_realtime = [\<lparr>ev_uuid = ''u1'', ev_radar_id = ''r1'',
                     ev_radar_nome = ''portaria'', ev_velocidade = Fin 30, ev_limite = Fin 30,
                     ev_acima_limite = True, ev_timestamp = ''t2'', ev_direcao = ''A->B''\<rparr>]\<rparr>)"
    using escolhe [OF t2 d2, unfolded k2 r2, THEN conjunct2, THEN mp, OF conjI [OF l2 novo]] a2
    by (simp add: radar_armado_def leitura_ex_def cfg_ex_def adicionar_evento_realtime_def)
  have c3: "callback_sensor_b (cfg_ex\<lparr>SENSOR_DIST_M := fl (54 / 100)\<rparr>)
              (leitura_ex (fl (972 / 100000))) radar_armado = (None, radar_vazio)"
    using escolhe [OF t3 d3, THEN conjunct1, THEN mp, OF k3] limpa by simp
  have c4: "callback_sensor_b cfg_ex (leitura_ex (Fin 11)) radar_armado = (None, radar_vazio)"
    using t4 limpa by simp
  show ?thesis using c1 c2 c3 c4 by (intro conjI)
qed

lemma length_adicionar_evento_realtime:
  "length es \<le> 50 \<Longrightarrow> length (adicionar_evento_realtime es d) \<le> 50"
  by (simp add: adicionar_evento_realtime_def Let_def)

lemma length_fold_adicionar_evento_realtime:
  "length es \<le> 50 \<Longrightarrow> length (fold (\<lambda>d es. adicionar_evento_realtime es d) ds es) \<le> 50"
  by (induction ds arbitrary: es) (simp_all add: length_adicionar_evento_realtime)

lemma api_eventos_take: "api_eventos es = take 20 (rev es)"
  by (simp add: api_eventos_def take_rev)

text \<open>
  C9. The real-time buffer of the edge node, started empty, never holds more than 50
  entries after an append; an append to a buffer of fewer than 50 entries only adds
  the entry, an append to a full buffer drops exactly the oldest entry and adds the
  new one; the events endpoint returns at most 20 entries, the 20 most recent,
  newest first.
\<close>

theorem C9_buffer_limitado:
  "length (fold (\<lambda>d es. adicionar_evento_realtime es d) ds []) \<le> 50 \<and>
   (length es \<le> 50 \<longrightarrow> length (adicionar_evento_realtime es d) \<le> 50) \<and>
   (length es < 50 \<longrightarrow> adicionar_evento_realtime es d = es @ [d]) \<and>
   (length es = 50 \<longrightarrow> adicionar_evento_realtime es d = tl es @ [d]) \<and>
   length (api_eventos es) \<le> 20 \<and>
   api_eventos es = take 20 (rev es)"
proof -
  have "length (fold (\<lambda>d es. adicionar_evento_realtime es d) ds []) \<le> 50"
    by (rule length_fold_adicionar_evento_realtime) simp
  moreover have "length es = 50 \<Longrightarrow> adicionar_evento_realtime es d = tl es @ [d]"
    by (cases es) (simp_all add: adicionar_evento_realtime_def Let_def)
  moreover have "length es < 50 \<Longrightarrow> adicionar_evento_realtime es d = es @ [d]"
    by (simp add: adicionar_evento_realtime_def Let_def)
  moreover have "length (api_eventos es) \<le> 20"
    by (simp add: api_eventos_take)
  ultimately show ?thesis
    using length_adicionar_evento_realtime [of es d] api_eventos_take [of es] by blast
qed

theorem C9_witness:
  "length (fold (\<lambda>d es. adicionar_evento_realtime es d) [0 ..< 60] ([] :: nat list)) \<le> 50 \<and>
   adicionar_evento_realtime [1, 2, 3 :: nat] 4 = [1, 2, 3, 4] \<and>
   adicionar_evento_realtime [0 ..< 50] (50 :: nat) = [1 ..< 51] \<and>
   api_eventos [0 ..< 50 :: nat] = rev [30 ..< 50]"
proof -
  have a: "length [1, 2, 3 :: nat] < 50" by simp
  have b: "length [0 ..< 50 :: nat] = 50" by simp
  have c: "tl [0 ..< 50 :: nat] @ [50] = [1 ..< 51]" by code_simp
  have d: "take 20 (rev [0 ..< 50 :: nat]) = rev [30 ..< 50]" by code_simp
  show ?thesis
    using C9_buffer_limitado [of "[0 ..< 60]" "[1, 2, 3 :: nat]" 4]
          C9_buffer_limitado [of "[]" "[0 ..< 50 :: nat]" 50] a b c d
    by simp
qed

lemma inserir_filtro:
  "filter (\<lambda>r. pg_uuid r = u) (tx_linhas tx) \<noteq> [] \<Longrightarrow>
   filter (\<lambda>r. pg_uuid r = u) (tx_linhas (inserir cfg now det tx)) =
   filter (\<lambda>r. pg_uuid r = u) (tx_linhas tx)"
  by (auto simp: inserir_def Let_def filter_empty_conv split: option.splits)

lemma fold_inserir_filtro:
  "filter (\<lambda>r. pg_uuid r = u) (tx_linhas tx) \<noteq> [] \<Longrightarrow>
   filter (\<lambda>r. pg_uuid r = u) (tx_linhas (fold (inserir cfg now) ps tx)) =
   filter (\<lambda>r. pg_uuid r = u) (tx_linhas tx)"
proof (induction ps arbitrary: tx)
  case Nil
  show ?case by simp
next
  case (Cons p ps)
  have "filter (\<lambda>r. pg_uuid r = u) (tx_linhas (inserir cfg now p tx)) =
        filter (\<lambda>r. pg_uuid r = u) (tx_linhas tx)"
    using Cons.prems by (rule inserir_filtro)
  with Cons show ?case by simp
qed

lemma linhas_garantir: "linhas (garantir_tabela_pg c) = linhas c"
  by (simp add: linhas_def garantir_tabela_pg_def split: option.splits)

lemma linhas_seq_update: "linhas (c\<lparr>radar_deteccoes_id_seq := n\<rparr>) = linhas c"
  by (simp add: linhas_def)

lemma linhas_tabela_update: "linhas (c\<lparr>radar_deteccoes := Some rs\<rparr>) = rs"
  by (simp add: linhas_def)

lemma sincronizar_linhas:
  "linhas (snd (sincronizar_com_central cfg amb (db, c))) = linhas c \<or>
   (\<exists>n. linhas (snd (sincronizar_com_central cfg amb (db, c))) =
      tx_linhas (fold (inserir cfg (agora_pg amb)) (get_deteccoes_nao_sincronizadas db)
        \<lparr>tx_linhas = linhas c, tx_seq = n, tx_abortada = False, enviados = []\<rparr>))"
proof (cases "get_deteccoes_nao_sincronizadas db = [] \<or> get_pg_connection cfg amb c = None")
  case True
  then have "snd (sincronizar_com_central cfg amb (db, c)) = c"
    by (auto simp: sincronizar_com_central_def Let_def)
  then show ?thesis by simp
next
  case False
  then have pg: "get_pg_connection cfg amb c = Some c"
    by (auto simp: get_pg_connection_def split: if_splits)
  define tx where "tx = fold (inserir cfg (agora_pg amb)) (get_deteccoes_nao_sincronizadas db)
      \<lparr>tx_linhas = linhas c, tx_seq = radar_deteccoes_id_seq (garantir_tabela_pg c),
       tx_abortada = False, enviados = []\<rparr>"
  have "linhas (snd (sincronizar_com_central cfg amb (db, c))) =
          (if \<not> commit_ok amb \<or> tx_abortada tx then linhas c else tx_linhas tx)"
    using False pg
    by (simp add: sincronizar_com_central_def Let_def tx_def linhas_garantir
          linhas_seq_update linhas_tabela_update)
  then show ?thesis unfolding tx_def by (metis (full_types))
qed

lemma sincronizar_filtro:
  assumes "filter (\<lambda>r. pg_uuid r = u) (linhas c) \<noteq> []"
  shows "filter (\<lambda>r. pg_uuid r = u) (linhas (snd (sincronizar_com_central cfg amb (db, c)))) =
         filter (\<lambda>r. pg_uuid r = u) (linhas c)"
proof -
  have "filter (\<lambda>r. pg_uuid r = u)
          (tx_linhas (fold (inserir cfg now) ps
             \<lparr>tx_linhas = linhas c, tx_seq = n, tx_abortada = False, enviados = []\<rparr>)) =
        filter (\<lambda>r. pg_uuid r = u) (linhas c)" for now ps n
    using fold_inserir_filtro [of u "\<lparr>tx_linhas = linhas c, tx_seq = n, tx_abortada = False,
      enviados = []\<rparr>" cfg now ps] assms by simp
  then show ?thesis
    using sincronizar_linhas [of cfg amb db c] by auto
qed

lemma ciclos_sync_filtro:
  "filter (\<lambda>r. pg_uuid r = u) (linhas c) \<noteq> [] \<Longrightarrow>
   filter (\<lambda>r. pg_uuid r = u) (linhas (ciclos_sync cfg cs c)) =
   filter (\<lambda>r. pg_uuid r = u) (linhas c)"
proof (induction cs arbitrary: c)
  case Nil
  show ?case by (simp add: ciclos_sync_def)
next
  case (Cons x cs)
  obtain amb db where x: "x = (amb, db)" by (cases x)
  let ?c1 = "snd (sincronizar_com_central cfg amb (db, c))"
  have step: "filter (\<lambda>r. pg_uuid r = u) (linhas ?c1) = filter (\<lambda>r. pg_uuid r = u) (linhas c)"
    using Cons.prems by (rule sincronizar_filtro)
  have "ciclos_sync cfg (x # cs) c = ciclos_sync cfg cs ?c1"
    by (simp add: ciclos_sync_def x)
  then show ?case using Cons.IH [of ?c1] step Cons.prems by simp
qed

lemma filtro_unico:
  "distinct (map pg_uuid rs) \<Longrightarrow> u \<in> set (map pg_uuid rs) \<Longrightarrow>
   length (filter (\<lambda>r. pg_uuid r = u) rs) = 1"
proof (induction rs)
  case Nil
  then show ?case by simp
next
  case (Cons r rs)
  show ?case
  proof (cases "pg_uuid r = u")
    case True
    then have "u \<notin> set (map pg_uuid rs)" using Cons.prems(1) by auto
    then have "filter (\<lambda>r. pg_uuid r = u) rs = []" by (auto simp: filter_empty_conv)
    then show ?thesis using True by simp
  next
    case False
    then show ?thesis using Cons by auto
  qed
qed

lemma inserir_presente:
  "det_uuid det \<in> set (map pg_uuid (tx_linhas tx)) \<Longrightarrow>
   tx_linhas (inserir cfg now det tx) = tx_linhas tx"
  by (simp add: inserir_def Let_def split: option.splits)

lemma fold_inserir_presentes:
  "\<forall>d \<in> set ps. det_uuid d \<in> set (map pg_uuid (tx_linhas tx)) \<Longrightarrow>
   tx_linhas (fold (inserir cfg now) ps tx) = tx_linhas tx"
proof (induction ps arbitrary: tx)
  case Nil
  show ?case by simp
next
  case (Cons p ps)
  have "tx_linhas (inserir cfg now p tx) = tx_linhas tx"
    using Cons.prems by (simp add: inserir_presente)
  with Cons show ?case by simp
qed

text \<open>
  C1. Let the central table hold a row with uuid \<open>u\<close>, its uuids pairwise different
  (the UNIQUE constraint). Then after any number of sync cycles, whatever the local
  table holds when each of them runs and whatever each meets outside, the central
  table holds exactly one row with uuid \<open>u\<close>. The insert of a detection with uuid
  \<open>u\<close> leaves the table as it is, and so does a whole cycle whose pending rows are
  all in the central table already.
\<close>

theorem C1_sync_idempotente:
  assumes "u \<in> set (map pg_uuid (linhas c))"
    and "distinct (map pg_uuid (linhas c))"
  shows "contagem u (ciclos_sync cfg cs c) = 1 \<and>
         (det_uuid det = u \<longrightarrow>
            tx_linhas (inserir cfg now det
              \<lparr>tx_linhas = linhas c, tx_seq = n, tx_abortada = ab, enviados = es\<rparr>) = linhas c) \<and>
         ((\<forall>d \<in> set (get_deteccoes_nao_sincronizadas db).
              det_uuid d \<in> set (map pg_uuid (linhas c))) \<longrightarrow>
            linhas (snd (sincronizar_com_central cfg amb (db, c))) = linhas c)"
proof -
  have one: "length (filter (\<lambda>r. pg_uuid r = u) (linhas c)) = 1"
    using assms by (simp add: filtro_unico)
  then have "filter (\<lambda>r. pg_uuid r = u) (linhas c) \<noteq> []" by auto
  then have "filter (\<lambda>r. pg_uuid r = u) (linhas (ciclos_sync cfg cs c)) =
             filter (\<lambda>r. pg_uuid r = u) (linhas c)"
    by (rule ciclos_sync_filtro)
  then have a: "contagem u (ciclos_sync cfg cs c) = 1"
    using one by (simp add: contagem_def)
  have b: "tx_linhas (inserir cfg now det
              \<lparr>tx_linhas = linhas c, tx_seq = n, tx_abortada = ab, enviados = es\<rparr>) = linhas c"
    if "det_uuid det = u"
    using inserir_presente [of det "\<lparr>tx_linhas = linhas c, tx_seq = n, tx_abortada = ab,
      enviados = es\<rparr>" cfg now] that assms(1) by simp
  have c: "linhas (snd (sincronizar_com_central cfg amb (db, c))) = linhas c"
    if "\<forall>d \<in> set (get_deteccoes_nao_sincronizadas db).
              det_uuid d \<in> set (map pg_uuid (linhas c))"
  proof -
    have "tx_linhas (fold (inserir cfg (agora_pg amb)) (get_deteccoes_nao_sincronizadas db)
        \<lparr>tx_linhas = linhas c, tx_seq = n, tx_abortada = False, enviados = []\<rparr>) = linhas c" for n
      using fold_inserir_presentes [of "get_deteccoes_nao_sincronizadas db"
          "\<lparr>tx_linhas = linhas c, tx_seq = n, tx_abortada = False, enviados = []\<rparr>"
          cfg "agora_pg amb"] that
      by simp
    then show ?thesis using sincronizar_linhas [of cfg amb db c] by auto
  qed
  show ?thesis using a b c by blast
qed

theorem C1_witness:
  "''u1'' \<in> set (map pg_uuid (linhas central_ex)) \<and>
   distinct (map pg_uuid (linhas central_ex)) \<and>
   contagem ''u1''
     (ciclos_sync cfg_ex [(amb_ok, [det_ex]), (amb_ok, [det_ex]), (amb_ok, [det_ex])]
        central_ex) = 1 \<and>
   tx_linhas (inserir cfg_ex ''t4'' det_ex
     \<lparr>tx_linhas = linhas central_ex, tx_seq = 1, tx_abortada = False, enviados = []\<rparr>) =
     linhas central_ex \<and>
   linhas (snd (sincronizar_com_central cfg_ex amb_ok ([det_ex], central_ex))) =
     linhas central_ex"
proof -
  have a: "''u1'' \<in> set (map pg_uuid (linhas central_ex))"
    by (simp add: linhas_def central_ex_def)
  have b: "distinct (map pg_uuid (linhas central_ex))"
    by (simp add: linhas_def central_ex_def)
  have c: "det_uuid det_ex = ''u1''" by (simp add: det_ex_def)
  have d: "\<forall>d \<in> set (get_deteccoes_nao_sincronizadas [det_ex]).
             det_uuid d \<in> set (map pg_uuid (linhas central_ex))"
    by (simp add: get_deteccoes_nao_sincronizadas_def det_ex_def linhas_def central_ex_def)
  show ?thesis
    using C1_sync_idempotente [OF a b, where cfg = cfg_ex and det = det_ex and now = "''t4''"
        and n = 1 and ab = False and es = "[]" and db = "[det_ex]" and amb = amb_ok
        and cs = "[(amb_ok, [det_ex]), (amb_ok, [det_ex]), (amb_ok, [det_ex])]"]
      a b c d
    by simp
qed

lemma marcar_sincronizado_map:
  "marcar_sincronizado us db =
     map (\<lambda>r. r\<lparr>det_sincronizado := (det_sincronizado r \<or> det_uuid r \<in> set us)\<rparr>) db"
proof (induction us arbitrary: db)
  case Nil
  show ?case by (simp add: marcar_sincronizado_def)
next
  case (Cons u us)
  have "marcar_sincronizado (u # us) db = marcar_sincronizado us (update_sincronizado u db)"
    by (simp add: marcar_sincronizado_def)
  then show ?case by (simp add: Cons.IH update_sincronizado_def)
qed

lemma enviados_inserir:
  "set (enviados (inserir cfg now det tx)) \<subseteq> insert (det_uuid det) (set (enviados tx))"
  by (auto simp: inserir_def Let_def split: option.splits)

lemma enviados_fold_inserir:
  "set (enviados (fold (inserir cfg now) ps tx)) \<subseteq> set (map det_uuid ps) \<union> set (enviados tx)"
proof (induction ps arbitrary: tx)
  case Nil
  show ?case by simp
next
  case (Cons p ps)
  show ?case using Cons.IH [of "inserir cfg now p tx"] enviados_inserir [of cfg now p tx]
    by auto
qed

lemma sincronizar_local:
  "\<exists>us. set us \<subseteq> set (map det_uuid (get_deteccoes_nao_sincronizadas db)) \<and>
        fst (sincronizar_com_central cfg amb (db, c)) = marcar_sincronizado us db"
proof -
  let ?ps = "get_deteccoes_nao_sincronizadas db"
  have nil: "marcar_sincronizado [] db = db" by (simp add: marcar_sincronizado_def)
  show ?thesis
  proof (cases "?ps = [] \<or> get_pg_connection cfg amb c = None \<or> \<not> commit_ok amb")
    case True
    then have "fst (sincronizar_com_central cfg amb (db, c)) = db"
      by (auto simp: sincronizar_com_central_def Let_def split: option.splits)
    then show ?thesis using nil by (intro exI [of _ "[]"]) simp
  next
    case False
    then obtain pg where pg: "get_pg_connection cfg amb c = Some pg" by auto
    define tx where "tx = fold (inserir cfg (agora_pg amb)) ?ps
                \<lparr>tx_linhas = linhas (garantir_tabela_pg pg),
                 tx_seq = radar_deteccoes_id_seq (garantir_tabela_pg pg),
                 tx_abortada = False, enviados = []\<rparr>"
    have "fst (sincronizar_com_central cfg amb (db, c)) =
            (if enviados tx \<noteq> [] then marcar_sincronizado (enviados tx) db else db)"
      using False pg by (simp add: sincronizar_com_central_def Let_def tx_def)
    then have "fst (sincronizar_com_central cfg amb (db, c)) =
                 marcar_sincronizado (enviados tx) db"
      using nil by (cases "enviados tx = []") simp_all
    moreover have "set (enviados tx) \<subseteq> set (map det_uuid ?ps)"
      unfolding tx_def using enviados_fold_inserir [of cfg "agora_pg amb" ?ps] by force
    ultimately show ?thesis by blast
  qed
qed

text \<open>
  C5. A saved detection is appended with the synchronized flag false.
  \<open>marcar_sincronizado\<close> changes the table only in the flag: a row's flag is true
  afterwards iff it was true before or the row's uuid is among the given ones, and
  every other column of every row is what it was. The local table after a sync
  cycle is the table before it with \<open>marcar_sincronizado\<close> applied to some of the
  pending uuids, so the flag is all the cycle changes.
\<close>

theorem C5_so_a_marca_muda:
  "(salvar_deteccao cfg uid ts v d db = Inr (u, db') \<longrightarrow>
      (\<exists>r. db' = db @ [r] \<and> \<not> det_sincronizado r)) \<and>
   marcar_sincronizado us db =
     map (\<lambda>r. r\<lparr>det_sincronizado := (det_sincronizado r \<or> det_uuid r \<in> set us)\<rparr>) db \<and>
   (\<exists>us'. set us' \<subseteq> set (map det_uuid (get_deteccoes_nao_sincronizadas db)) \<and>
          fst (sincronizar_com_central cfg amb (db, c)) = marcar_sincronizado us' db)"
proof -
  have "\<exists>r. db' = db @ [r] \<and> \<not> det_sincronizado r"
    if "salvar_deteccao cfg uid ts v d db = Inr (u, db')"
    using that by (auto simp: salvar_deteccao_def Let_def split: if_splits)
  then show ?thesis
    using marcar_sincronizado_map [of us db] sincronizar_local [of db cfg amb c] by blast
qed

theorem C5_witness:
  "salvar_deteccao cfg_ex ''u2'' ''t5'' (Fin 30) ''A->B'' [det_ex] =
     Inr (''u2'', [det_ex,
       \<lparr>det_id = 2, det_uuid = ''u2'', det_radar_id = ''r1'', det_timestamp = ''t5'',
        det_velocidade = Fin 30, det_direcao = ''A->B'', det_acima_limite = True,
        det_sincronizado = False\<rparr>]) \<and>
   (\<exists>r. [det_ex,
       \<lparr>det_id = 2, det_uuid = ''u2'', det_radar_id = ''r1'', det_timestamp = ''t5'',
        det_velocidade = Fin 30, det_direcao = ''A->B'', det_acima_limite = True,
        det_sincronizado = False\<rparr>] = [det_ex] @ [r] \<and> \<not> det_sincronizado r) \<and>
   marcar_sincronizado [''u1''] [det_ex] = [det_ex\<lparr>det_sincronizado := True\<rparr>]"
proof -
  have a: "salvar_deteccao cfg_ex ''u2'' ''t5'' (Fin 30) ''A->B'' [det_ex] =
     Inr (''u2'', [det_ex,
       \<lparr>det_id = 2, det_uuid = ''u2'', det_radar_id = ''r1'', det_timestamp = ''t5'',
        det_velocidade = Fin 30, det_direcao = ''A->B'', det_acima_limite = True,
        det_sincronizado = False\<rparr>])"
    by (simp add: salvar_deteccao_def cfg_ex_def det_ex_def d_less_def)
  show ?thesis
    using C5_so_a_marca_muda [where cfg = cfg_ex and uid = "''u2''" and ts = "''t5''"
        and v = "Fin 30" and d = "''A->B''" and db = "[det_ex]" and u = "''u2''"
        and db' = "[det_ex,
       \<lparr>det_id = 2, det_uuid = ''u2'', det_radar_id = ''r1'', det_timestamp = ''t5'',
        det_velocidade = Fin 30, det_direcao = ''A->B'', det_acima_limite = True,
        det_sincronizado = False\<rparr>]" and us = "[''u1'']" and amb = amb_ok and c = central_ex] a
    by (simp add: det_ex_def)
qed

text \<open>
  C6. When the driver is missing, no host is configured or the connection attempt
  fails, \<open>get_pg_connection\<close> gives \<open>None\<close> and the sync cycle changes neither
  the local table, so every pending row stays unsynchronized, nor the central
  database. Saving a detection, and the whole B callback, do not depend on the
  central settings (they read nothing else of the central database either). Saving
  a detection whose uuid is new to the local table and whose speed is a number
  succeeds: it returns the uuid and appends exactly the row with that uuid, the
  radar id, the timestamp, the speed and the direction given, the over-limit flag
  set iff the speed is strictly greater than \<open>SPEED_LIMIT\<close>, and the synchronized
  flag false.
\<close>

theorem C6_central_fora:
  "(\<not> PG_AVAILABLE cfg \<or> PG_HOST cfg = [] \<or> \<not> conecta amb \<longrightarrow>
      get_pg_connection cfg amb c = None \<and>
      sincronizar_com_central cfg amb (db, c) = (db, c)) \<and>
   salvar_deteccao (cfg\<lparr>PG_AVAILABLE := a, PG_HOST := h\<rparr>) uid ts v d db =
     salvar_deteccao cfg uid ts v d db \<and>
   callback_sensor_b (cfg\<lparr>PG_AVAILABLE := a, PG_HOST := h\<rparr>) l s = callback_sensor_b cfg l s \<and>
   (uid \<notin> set (map det_uuid db) \<and> v \<noteq> NaN \<longrightarrow>
      salvar_deteccao cfg uid ts v d db =
        Inr (uid, db @ [\<lparr>det_id = Suc (length db), det_uuid = uid,
                           det_radar_id = RADAR_ID cfg, det_timestamp = ts,
                           det_velocidade = v, det_direcao = d,
                           det_acima_limite = d_less (SPEED_LIMIT cfg) v,
                           det_sincronizado = False\<rparr>]))"
proof -
  have 1: "get_pg_connection cfg amb c = None \<and>
           sincronizar_com_central cfg amb (db, c) = (db, c)"
    if "\<not> PG_AVAILABLE cfg \<or> PG_HOST cfg = [] \<or> \<not> conecta amb"
  proof -
    have "get_pg_connection cfg amb c = None"
      using that by (auto simp: get_pg_connection_def)
    then show ?thesis by (simp add: sincronizar_com_central_def Let_def)
  qed
  have 2: "salvar_deteccao (cfg\<lparr>PG_AVAILABLE := a, PG_HOST := h\<rparr>) uid ts v d db =
           salvar_deteccao cfg uid ts v d db" for uid ts v d db
    by (simp add: salvar_deteccao_def)
  have 3: "callback_sensor_b (cfg\<lparr>PG_AVAILABLE := a, PG_HOST := h\<rparr>) l s =
           callback_sensor_b cfg l s"
    by (simp add: callback_sensor_b_def 2 Let_def split: option.splits sum.splits prod.splits)
  have 4: "salvar_deteccao cfg uid ts v d db =
        Inr (uid, db @ [\<lparr>det_id = Suc (length db), det_uuid = uid,
                           det_radar_id = RADAR_ID cfg, det_timestamp = ts,
                           det_velocidade = v, det_direcao = d,
                           det_acima_limite = d_less (SPEED_LIMIT cfg) v,
                           det_sincronizado = False\<rparr>])"
    if "uid \<notin> set (map det_uuid db) \<and> v \<noteq> NaN"
    using that by (simp add: salvar_deteccao_def Let_def)
  show ?thesis
    by (intro conjI impI) (use 1 in blast, use 1 in blast, rule 2, rule 3, rule 4)
qed

theorem C6_witness:
  "PG_HOST (cfg_ex\<lparr>PG_HOST := []\<rparr>) = [] \<and>
   get_pg_connection (cfg_ex\<lparr>PG_HOST := []\<rparr>) amb_ok central_ex = None \<and>
   sincronizar_com_central (cfg_ex\<lparr>PG_HOST := []\<rparr>) amb_ok ([det_ex], central_ex) =
     ([det_ex], central_ex) \<and>
   sincronizar_com_central cfg_ex (amb_ok\<lparr>conecta := False\<rparr>) ([det_ex], central_ex) =
     ([det_ex], central_ex) \<and>
   ''u2'' \<notin> set (map det_uuid [det_ex]) \<and> Fin 30 \<noteq> NaN \<and>
   salvar_deteccao (cfg_ex\<lparr>PG_HOST := []\<rparr>) ''u2'' ''t5'' (Fin 30) ''A->B'' [det_ex] =
     Inr (''u2'', [det_ex,
       \<lparr>det_id = 2, det_uuid = ''u2'', det_radar_id = ''r1'', det_timestamp = ''t5'',
        det_velocidade = Fin 30, det_direcao = ''A->B'', det_acima_limite = True,
        det_sincronizado = False\<rparr>])"
proof -
  have a: "PG_HOST (cfg_ex\<lparr>PG_HOST := []\<rparr>) = []" by simp
  have b: "\<not> conecta (amb_ok\<lparr>conecta := False\<rparr>)" by simp
  have c: "''u2'' \<notin> set (map det_uuid [det_ex])" by (simp add: det_ex_def)
  have n: "Fin 30 \<noteq> NaN" by simp
  have l: "d_less (SPEED_LIMIT (cfg_ex\<lparr>PG_HOST := []\<rparr>)) (Fin 30)"
    by (simp add: cfg_ex_def d_less_def)
  note t1 = C6_central_fora [where cfg = "cfg_ex\<lparr>PG_HOST := []\<rparr>" and amb = amb_ok
        and c = central_ex and db = "[det_ex]" and uid = "''u2''" and ts = "''t5''"
        and v = "Fin 30" and d = "''A->B''"]
  note t2 = C6_central_fora [where cfg = cfg_ex and amb = "amb_ok\<lparr>conecta := False\<rparr>"
        and c = central_ex and db = "[det_ex]"]
  note i1 = t1 [THEN conjunct1, THEN mp, OF disjI2 [OF disjI1 [OF a]]]
  note i2 = t2 [THEN conjunct1, THEN mp, OF disjI2 [OF disjI2 [OF b]], THEN conjunct2]
  note i4 = t1 [THEN conjunct2, THEN conjunct2, THEN conjunct2, THEN mp, OF conjI [OF c n]]
  have s: "salvar_deteccao (cfg_ex\<lparr>PG_HOST := []\<rparr>) ''u2'' ''t5'' (Fin 30) ''A->B'' [det_ex] =
     Inr (''u2'', [det_ex,
       \<lparr>det_id = 2, det_uuid = ''u2'', det_radar_id = ''r1'', det_timestamp = ''t5'',
        det_velocidade = Fin 30, det_direcao = ''A->B'', det_acima_limite = True,
        det_sincronizado = False\<rparr>])"
    using i4 l by (simp add: cfg_ex_def)
  show ?thesis
    using a i1 i2 c n s by (intro conjI) simp_all
qed












lemma list_ex_take: "list_ex P (take n xs) \<Longrightarrow> list_ex P xs"
  by (auto simp: list_ex_iff dest: in_set_takeD)

lemma sem_repetidos_take: "sem_repetidos xs \<Longrightarrow> sem_repetidos (take n xs)"
proof (induction xs arbitrary: n)
  case Nil
  then show ?case by simp
next
  case (Cons x xs)
  then show ?case by (cases n) (auto dest: list_ex_take)
qed

lemma take_50_adicionar_evento:
  "take 50 (adicionar_evento eventos ev) = ev # take 49 eventos"
proof -
  have "take 50 (butlast (ev # eventos)) = take 50 (ev # eventos)"
    if "length (ev # eventos) > 200"
    using that by (intro take_butlast) simp
  then show ?thesis by (simp add: adicionar_evento_def Let_def)
qed

lemma novo_evento_janela:
  assumes "sem_repetidos (take 50 (eventos_recentes g))"
  shows "sem_repetidos (take 50 (eventos_recentes (novo_evento ev g)))"
proof (cases "novo_evento ev g = g")
  case True
  then show ?thesis using assms by simp
next
  case False
  let ?k = "get_or ev ''uuid'' (Texto [])"
  from False have guard: "truthy ?k"
      "\<not> list_ex (\<lambda>e. py_eq (get e ''uuid'') ?k) (take 50 (eventos_recentes g))"
    and novo: "eventos_recentes (novo_evento ev g) = adicionar_evento (eventos_recentes g) ev"
    by (auto simp: novo_evento_def Let_def split: if_splits)
  have k: "get ev ''uuid'' = ?k"
    using guard(1) by (cases "ev ''uuid''") (simp_all add: get_def get_or_def)
  have "take 49 (eventos_recentes g) = take 49 (take 50 (eventos_recentes g))"
    by simp
  then have "\<not> list_ex (\<lambda>e. py_eq (get e ''uuid'') ?k) (take 49 (eventos_recentes g))"
    and "sem_repetidos (take 49 (eventos_recentes g))"
    using guard(2) assms list_ex_take [of _ 49 "take 50 (eventos_recentes g)"]
      sem_repetidos_take [of "take 50 (eventos_recentes g)" 49]
    by auto
  then show ?thesis
    by (simp add: novo take_50_adicionar_evento k)
qed

lemma fold_novo_evento_janela:
  "sem_repetidos (take 50 (eventos_recentes g)) \<Longrightarrow>
   sem_repetidos (take 50 (eventos_recentes (fold novo_evento evs g)))"
  by (induction evs arbitrary: g) (simp_all add: novo_evento_janela)

lemma poll_radar_janela:
  assumes "sem_repetidos (take 50 (eventos_recentes g))"
  shows "sem_repetidos (take 50 (eventos_recentes (poll_radar net agora x g)))"
proof -
  have "sem_repetidos (take 50 (eventos_recentes (fold novo_evento evs (g\<lparr>status_radares := sr\<rparr>))))"
    for evs sr
    using assms by (intro fold_novo_evento_janela) simp
  then show ?thesis
    using assms
    by (auto simp: poll_radar_def Let_def split: prod.splits resposta.splits)
qed

lemma ciclo_polling_janela:
  "sem_repetidos (take 50 (eventos_recentes g)) \<Longrightarrow>
   sem_repetidos (take 50 (eventos_recentes (ciclo_polling net agora g)))"
proof -
  have "sem_repetidos (take 50 (eventos_recentes g)) \<Longrightarrow>
        sem_repetidos (take 50 (eventos_recentes (fold (poll_radar net agora) xs g)))" for xs
    by (induction xs arbitrary: g) (simp_all add: poll_radar_janela)
  then show "sem_repetidos (take 50 (eventos_recentes g)) \<Longrightarrow>
   sem_repetidos (take 50 (eventos_recentes (ciclo_polling net agora g)))"
    by (simp add: ciclo_polling_def)
qed

lemma loop_polling_janela:
  "sem_repetidos (take 50 (eventos_recentes g)) \<Longrightarrow>
   sem_repetidos (take 50 (eventos_recentes (loop_polling ciclos g)))"
proof (induction ciclos arbitrary: g)
  case Nil
  then show ?case by (simp add: loop_polling_def)
next
  case (Cons c ciclos)
  obtain net agora where c: "c = (net, agora)" by (cases c)
  have "loop_polling (c # ciclos) g = loop_polling ciclos (ciclo_polling net agora g)"
    by (simp add: loop_polling_def c)
  then show ?case using Cons by (simp add: ciclo_polling_janela)
qed

text \<open>
  C3, within the look-back. The look-back of the polling loop is the first 50 entries of the
  buffer: an event whose uuid equals that of one of them is not appended. So if the
  50 most recent entries hold no two events of equal uuid, they hold none after one
  event has been handled, after one node has been polled, and after any number of
  passes of the loop; the page the events endpoint serves holds none either.
\<close>

theorem C3_janela_sem_repetidos:
  assumes "sem_repetidos (take 50 (eventos_recentes g))"
  shows "sem_repetidos (take 50 (eventos_recentes (novo_evento ev g))) \<and>
         sem_repetidos (take 50 (eventos_recentes (poll_radar net agora x g))) \<and>
         sem_repetidos (take 50 (eventos_recentes (loop_polling ciclos g))) \<and>
         sem_repetidos (manager_api_eventos (loop_polling ciclos g)) \<and>
         (list_ex (\<lambda>e. py_eq (get e ''uuid'') (get_or ev ''uuid'' (Texto [])))
            (take 50 (eventos_recentes g)) \<longrightarrow> novo_evento ev g = g)"
  using assms novo_evento_janela poll_radar_janela loop_polling_janela
  by (simp add: manager_api_eventos_def novo_evento_def Let_def)

theorem C3_witness:
  "sem_repetidos (take 50 (eventos_recentes gerente_ex)) \<and>
   sem_repetidos (take 50 (eventos_recentes
     (loop_polling (map (\<lambda>k. (rede_ex k, ''t'')) [0 ..< 11]) gerente_ex))) \<and>
   sem_repetidos (manager_api_eventos
     (loop_polling (map (\<lambda>k. (rede_ex k, ''t'')) [0 ..< 11]) gerente_ex)) \<and>
   novo_evento evento_a (gerente_ex\<lparr>eventos_recentes := [evento_a]\<rparr>) =
     gerente_ex\<lparr>eventos_recentes := [evento_a]\<rparr>"
proof -
  have a: "sem_repetidos (take 50 (eventos_recentes gerente_ex))"
    by (simp add: gerente_ex_def)
  have b: "sem_repetidos (take 50 (eventos_recentes (gerente_ex\<lparr>eventos_recentes := [evento_a]\<rparr>)))"
    by simp
  have c: "list_ex (\<lambda>e. py_eq (get e ''uuid'') (get_or evento_a ''uuid'' (Texto [])))
            (take 50 (eventos_recentes (gerente_ex\<lparr>eventos_recentes := [evento_a]\<rparr>)))"
    by (simp add: evento_a_def get_def get_or_def)
  show ?thesis
    using C3_janela_sem_repetidos [OF a, where ciclos = "map (\<lambda>k. (rede_ex k, ''t'')) [0 ..< 11]"]
      C3_janela_sem_repetidos [OF b, where ev = evento_a] a c
    by blast
qed

text \<open>
  C3 beyond the look-back fails. Started with an empty buffer, node A serves the same event
  \<open>a\<close> in every pass and node B five new events per pass. After ten passes the
  entry \<open>a\<close> is at position 50, outside the look-back, and the eleventh pass puts
  \<open>a\<close> into the buffer a second time.
\<close>

theorem C3_repetido_fora_da_janela:
  "length (filter (\<lambda>e. e ''uuid'' = Some (Texto ''a''))
     (eventos_recentes
        (loop_polling (map (\<lambda>k. (rede_ex k, ''t'')) [0 ..< 11]) gerente_ex))) = 2"
  by code_simp

lemma ler_linha_pg_pass: "linha_pg_pass l \<Longrightarrow> ler_linha l config = config"
  by (simp add: ler_linha_def linha_pg_pass_def)

lemma ler_linha_chave_pg_pass: "ler_linha l config ''PG_PASS'' = config ''PG_PASS''"
  by (simp add: ler_linha_def)

lemma fold_ler_linha_chave_pg_pass:
  "fold ler_linha ls config ''PG_PASS'' = config ''PG_PASS''"
  by (induction ls arbitrary: config) (simp_all add: ler_linha_chave_pg_pass)

lemma fold_ler_linha_filter:
  "fold ler_linha ls config = fold ler_linha (filter (\<lambda>l. \<not> linha_pg_pass l) ls) config"
  by (induction ls arbitrary: config) (simp_all add: ler_linha_pg_pass)

lemma dropWhile_append_stop:
  "\<not> P y \<Longrightarrow> dropWhile P (xs @ y # ys) = dropWhile P xs @ y # ys"
  by (induction xs) simp_all

lemma strip_pg_pass:
  "strip (''PG_PASS='' @ s) = ''PG_PASS='' @ rev (dropWhile is_space (rev s))"
proof -
  have eq: "\<not> is_space (CHR ''='')" by (simp add: is_space_def)
  have p: "\<not> is_space (CHR ''P'')" by (simp add: is_space_def)
  have "dropWhile is_space (''PG_PASS='' @ s) = ''PG_PASS='' @ s"
    using p by simp
  moreover have "dropWhile is_space (rev s @ CHR ''='' # ''SSAP_GP'') =
                 dropWhile is_space (rev s) @ CHR ''='' # ''SSAP_GP''"
    using eq by (rule dropWhile_append_stop)
  ultimately show ?thesis by (simp add: strip_def)
qed

lemma strip_chave_pg_pass: "strip ''PG_PASS'' = ''PG_PASS''"
  by (simp add: strip_def is_space_def)

lemma linha_pg_pass_qualquer: "linha_pg_pass (''PG_PASS='' @ s)"
  unfolding linha_pg_pass_def linha_entrada_def linha_chave_def Let_def strip_pg_pass
  by (simp add: strip_chave_pg_pass)

lemma splitlines_from_linha:
  "\<forall>c \<in> set l. \<not> is_linebreak c \<Longrightarrow>
   splitlines_from cur (l @ CHR 0x0A # rest) = (rev cur @ l) # splitlines_from [] rest"
proof (induction l arbitrary: cur)
  case Nil
  show ?case by (simp add: is_linebreak_def)
next
  case (Cons c l)
  have "\<not> is_linebreak c" using Cons.prems by simp
  moreover have "is_linebreak (CHR 0x0D)" by (simp add: is_linebreak_def)
  ultimately have "c \<noteq> CHR 0x0D" by auto
  then show ?case using Cons \<open>\<not> is_linebreak c\<close> by simp
qed

lemma splitlines_from_passo:
  assumes "\<not> (c = CHR 0x0D \<and> (\<exists>ds. ys = CHR 0x0A # ds))"
  shows "splitlines_from cur (c # ys) =
           (if is_linebreak c then rev cur # splitlines_from [] ys
            else splitlines_from (c # cur) ys)"
  using assms by (cases ys) auto

lemma splitlines_from_prefixo:
  "splitlines_from cur (xs @ CHR 0x0A # rest) =
   splitlines_from cur (xs @ [CHR 0x0A]) @ splitlines_from [] rest"
proof (induction xs arbitrary: cur rule: length_induct)
  case (1 xs)
  have lf: "is_linebreak (CHR 0x0A)" by (simp add: is_linebreak_def)
  show ?case
  proof (cases xs)
    case Nil
    then show ?thesis using lf by simp
  next
    case (Cons c cs)
    have ih: "splitlines_from k (cs' @ CHR 0x0A # rest) =
              splitlines_from k (cs' @ [CHR 0x0A]) @ splitlines_from [] rest"
      if "length cs' \<le> length cs" for k cs'
      using "1.IH" that Cons by simp
    consider (crlf) ds where "c = CHR 0x0D" "cs = CHR 0x0A # ds"
      | (cr_fim) "c = CHR 0x0D" "cs = []"
      | (outro) "\<not> (c = CHR 0x0D \<and> (cs = [] \<or> (\<exists>ds. cs = CHR 0x0A # ds)))"
      by blast
    then show ?thesis
    proof cases
      case crlf
      then show ?thesis using Cons ih [of ds "[]"] by simp
    next
      case cr_fim
      then show ?thesis using Cons by simp
    next
      case outro
      then have a: "\<not> (c = CHR 0x0D \<and> (\<exists>ds. cs @ CHR 0x0A # rest = CHR 0x0A # ds))"
        and b: "\<not> (c = CHR 0x0D \<and> (\<exists>ds. cs @ [CHR 0x0A] = CHR 0x0A # ds))"
        by (cases cs; auto)+
      show ?thesis
        unfolding Cons append_Cons splitlines_from_passo [OF a] splitlines_from_passo [OF b]
        using ih [of cs] by simp
    qed
  qed
qed

lemma splitlines_entrada_pg_pass:
  assumes "pre = [] \<or> last pre = CHR 0x0A"
    and "\<forall>c \<in> set senha. \<not> is_linebreak c"
  shows "filter (\<lambda>l. \<not> linha_pg_pass l)
           (splitlines (pre @ (''PG_PASS='' @ senha) @ CHR 0x0A # post)) =
         filter (\<lambda>l. \<not> linha_pg_pass l) (splitlines pre @ splitlines post)"
proof -
  define l where "l = ''PG_PASS='' @ senha"
  have nolb: "\<forall>c \<in> set l. \<not> is_linebreak c"
    using assms(2) by (simp add: l_def is_linebreak_def)
  have pg: "linha_pg_pass l"
    unfolding l_def by (rule linha_pg_pass_qualquer)
  have linha: "splitlines_from [] (l @ CHR 0x0A # post) = l # splitlines_from [] post"
    using splitlines_from_linha [OF nolb, of "[]" post] by simp
  have "splitlines (pre @ l @ CHR 0x0A # post) = splitlines pre @ l # splitlines post"
  proof (cases "pre = []")
    case True
    then show ?thesis using linha by (simp add: splitlines_def)
  next
    case False
    then have "last pre = CHR 0x0A" using assms(1) by simp
    then obtain xs where pre: "pre = xs @ [CHR 0x0A]"
      using False by (metis append_butlast_last_id)
    have "splitlines_from [] (xs @ CHR 0x0A # (l @ CHR 0x0A # post)) =
          splitlines_from [] (xs @ [CHR 0x0A]) @ splitlines_from [] (l @ CHR 0x0A # post)"
      by (rule splitlines_from_prefixo)
    then show ?thesis using linha by (simp add: splitlines_def pre)
  qed
  then show ?thesis
    unfolding l_def [symmetric] using pg by simp
qed

text \<open>
  What the two read endpoints do keep back. The manager's configuration reply has no
  \<open>pg_pass\<close> key, and two stored configurations that agree on every other key give
  the same reply. The edge node's reply has no \<open>PG_PASS\<close> key, for any environment
  file or none; two environment files whose lines other than the \<open>PG_PASS\<close>
  entries are the same give the same reply, and so do two files that differ only in
  what follows \<open>PG_PASS=\<close> on its line, as long as neither password holds a line
  break.
\<close>

lemma senha_de_uma_linha_nao_sai:
  "api_get_config config ''pg_pass'' = None \<and>
   ((\<forall>k. k \<noteq> ''pg_pass'' \<longrightarrow> config1 k = config2 k) \<longrightarrow>
      api_get_config config1 = api_get_config config2) \<and>
   api_config_local env ''PG_PASS'' = None \<and>
   (filter (\<lambda>l. \<not> linha_pg_pass l) (splitlines texto1) =
    filter (\<lambda>l. \<not> linha_pg_pass l) (splitlines texto2) \<longrightarrow>
      api_config_local (Some texto1) = api_config_local (Some texto2)) \<and>
   ((pre = [] \<or> last pre = CHR 0x0A) \<and>
    (\<forall>c \<in> set senha1 \<union> set senha2. \<not> is_linebreak c) \<longrightarrow>
      api_config_local (Some (pre @ (''PG_PASS='' @ senha1) @ CHR 0x0A # post)) =
      api_config_local (Some (pre @ (''PG_PASS='' @ senha2) @ CHR 0x0A # post)))"
proof -
  have a: "api_get_config config ''pg_pass'' = None"
    by (simp add: api_get_config_def)
  have b: "api_get_config config1 = api_get_config config2"
    if "\<forall>k. k \<noteq> ''pg_pass'' \<longrightarrow> config1 k = config2 k"
    using that by (auto simp: api_get_config_def fun_eq_iff)
  have c: "api_config_local env ''PG_PASS'' = None"
    by (cases env) (simp_all add: api_config_local_def fold_ler_linha_chave_pg_pass)
  have d: "api_config_local (Some texto1) = api_config_local (Some texto2)"
    if "filter (\<lambda>l. \<not> linha_pg_pass l) (splitlines texto1) =
        filter (\<lambda>l. \<not> linha_pg_pass l) (splitlines texto2)"
  proof -
    have "api_config_local (Some texto1) =
          fold ler_linha (filter (\<lambda>l. \<not> linha_pg_pass l) (splitlines texto1)) Map.empty"
      unfolding api_config_local_def option.case by (rule fold_ler_linha_filter)
    also have "\<dots> = fold ler_linha (filter (\<lambda>l. \<not> linha_pg_pass l) (splitlines texto2)) Map.empty"
      using that by simp
    also have "\<dots> = api_config_local (Some texto2)"
      unfolding api_config_local_def option.case by (rule fold_ler_linha_filter [symmetric])
    finally show ?thesis .
  qed
  have e: "api_config_local (Some (pre @ (''PG_PASS='' @ senha1) @ CHR 0x0A # post)) =
           api_config_local (Some (pre @ (''PG_PASS='' @ senha2) @ CHR 0x0A # post))"
    if "pre = [] \<or> last pre = CHR 0x0A"
      and "\<forall>c \<in> set senha1 \<union> set senha2. \<not> is_linebreak c"
  proof -
    have "filter (\<lambda>l. \<not> linha_pg_pass l)
            (splitlines (pre @ (''PG_PASS='' @ senha1) @ CHR 0x0A # post)) =
          filter (\<lambda>l. \<not> linha_pg_pass l)
            (splitlines (pre @ (''PG_PASS='' @ senha2) @ CHR 0x0A # post))"
      using that splitlines_entrada_pg_pass [of pre senha1 post]
        splitlines_entrada_pg_pass [of pre senha2 post]
      by simp
    then have "fold ler_linha (splitlines (pre @ (''PG_PASS='' @ senha1) @ CHR 0x0A # post))
                 Map.empty =
               fold ler_linha (splitlines (pre @ (''PG_PASS='' @ senha2) @ CHR 0x0A # post))
                 Map.empty"
      using fold_ler_linha_filter [of "splitlines (pre @ (''PG_PASS='' @ senha1) @ CHR 0x0A # post)"]
        fold_ler_linha_filter [of "splitlines (pre @ (''PG_PASS='' @ senha2) @ CHR 0x0A # post)"]
      by metis
    then show ?thesis by (simp only: api_config_local_def option.case)
  qed
  show ?thesis using a b c d e by blast
qed

text \<open>
  C10. A password with a line break. \<open>api_configurar\<close> writes the \<open>pg_pass\<close> of the
  request into the environment file as it comes, so the password \<open>ab\<close>, line feed,
  \<open>cd=ef\<close> takes two lines of the file. \<open>api_config_local\<close> leaves out the line
  \<open>PG_PASS=ab\<close> and serves the second line as an entry of its own: the reply maps
  \<open>cd\<close> to \<open>ef\<close>, the second half of the password. With the password \<open>xy\<close> and
  everything else the same, the reply has no key \<open>cd\<close>: the replies for two stored
  configurations that differ only in the password are not the same. Both requests
  are answered with 200 and both files are written (either reply has the entry
  \<open>PG_USER\<close>).
\<close>

theorem C10_senha_em_duas_linhas:
  "fst (api_configurar globais_ex [(''pg_pass'', senha_duas_linhas)] None) = 200 \<and>
   fst (api_configurar globais_ex [(''pg_pass'', senha_uma_linha)] None) = 200 \<and>
   api_config_local
     (snd (api_configurar globais_ex [(''pg_pass'', senha_duas_linhas)] None)) ''PG_USER'' =
     Some ''radar'' \<and>
   api_config_local
     (snd (api_configurar globais_ex [(''pg_pass'', senha_uma_linha)] None)) ''PG_USER'' =
     Some ''radar'' \<and>
   api_config_local
     (snd (api_configurar globais_ex [(''pg_pass'', senha_duas_linhas)] None)) ''cd'' =
     Some ''ef'' \<and>
   api_config_local
     (snd (api_configurar globais_ex [(''pg_pass'', senha_uma_linha)] None)) ''cd'' = None"
  by code_simp

text \<open>
  C4. Scanning \<open>192.168.1.0/24\<close> while no host answers: every probe lasts its
  timeout of 1.5 s. When the loop has started the probe of the 51st host, 51 probes
  are in flight. The test \<open>>= 50\<close> only makes the loop sleep 0.1 s before it starts
  the next thread; it does not wait for a probe to finish.
\<close>

theorem C4_mais_de_50_em_voo:
  "em_voo ping_mudo
     (fold (iniciar ping_mudo) (take 51 hosts_24) \<lparr>relogio = 0, threads = []\<rparr>) = 51"
  by code_simp

end
